theory Spec2Isabelle
  imports Complex_Main "HOL-Library.AList"
begin

section \<open>Data model (types.ts)\<close>

text \<open>
  \<^verbatim>\<open>SupportMode\<close> is a string enum: at run time a member is its own name as a string, and
  a value that a cast types as \<^verbatim>\<open>SupportMode\<close> may be any string. Fields of that type
  therefore hold strings; \<open>SupportMode_value\<close> gives the string of each member.
\<close>

datatype SupportMode = LISTENING | CALMING | MOTIVATION | STABILITY | CRISIS_AWARE

fun SupportMode_value :: "SupportMode \<Rightarrow> string" where
  "SupportMode_value LISTENING = ''LISTENING''"
| "SupportMode_value CALMING = ''CALMING''"
| "SupportMode_value MOTIVATION = ''MOTIVATION''"
| "SupportMode_value STABILITY = ''STABILITY''"
| "SupportMode_value CRISIS_AWARE = ''CRISIS_AWARE''"

text \<open>
  \<^verbatim>\<open>MoodState\<close> and \<^verbatim>\<open>MoodLogEntry\<close>, as their interfaces declare them. A finite
  JavaScript number is given by the rational that it denotes (a risk score may be written
  as any decimal; \<open>to_double\<close> below gives the double that the engine holds for it), and
  a score is an integer.
\<close>

record MoodState =
  dominant_mood :: string
  energy_level :: string
  stability :: string
  risk_score :: rat

record MoodLogEntry =
  date :: string
  mood :: string
  energy :: string
  score :: int

text \<open>
  A thrown value: the kinds of error the code meets, each with its message. The wording of
  a TypeError or SyntaxError is the engine's; the model fixes one wording, and nothing
  below depends on it.
\<close>

datatype js_error = Error string | TypeError string | SyntaxError string

fun message :: "js_error \<Rightarrow> string" where
  "message (Error m) = m"
| "message (TypeError m) = m"
| "message (SyntaxError m) = m"

section \<open>JavaScript values and the primitives the code uses\<close>

text \<open>
  What a provider sends is not checked against the TypeScript types, so the adapters are
  modelled on run-time values. An object is the association list of its own properties (the
  first binding of a key is its value); an array carries its elements and the named
  properties assigned to it. A string is the byte string of its UTF-8 encoding.
  \<^verbatim>\<open>toUpperCase\<close> is modelled on the ASCII letters: bytes above 127 are left as they are.
\<close>

datatype jsval =
    JUndefined
  | JNull
  | JBool bool
  | JNum rat
  | JStr string
  | JArr "jsval list" "(string \<times> jsval) list"
  | JObj "(string \<times> jsval) list"

definition cannot_read :: "string \<Rightarrow> js_error" where
  "cannot_read k = TypeError (''Cannot read properties of undefined or null (reading '' @ k @ '')'')"

text \<open>
  \<^verbatim>\<open>v.k\<close> for a property name \<open>k\<close> that no built-in prototype defines (all the names
  read below are such): a TypeError on \<^verbatim>\<open>undefined\<close> and \<^verbatim>\<open>null\<close>, the own property or
  \<^verbatim>\<open>undefined\<close> otherwise.
\<close>

fun js_get :: "jsval \<Rightarrow> string \<Rightarrow> js_error + jsval" where
  "js_get JUndefined k = Inl (cannot_read k)"
| "js_get JNull k = Inl (cannot_read k)"
| "js_get (JObj ps) k = Inr (case map_of ps k of Some v \<Rightarrow> v | None \<Rightarrow> JUndefined)"
| "js_get (JArr xs ps) k = Inr (case map_of ps k of Some v \<Rightarrow> v | None \<Rightarrow> JUndefined)"
| "js_get (JBool b) k = Inr JUndefined"
| "js_get (JNum n) k = Inr JUndefined"
| "js_get (JStr s) k = Inr JUndefined"

text \<open>\<^verbatim>\<open>v[0]\<close>.\<close>

fun js_elem0 :: "jsval \<Rightarrow> js_error + jsval" where
  "js_elem0 JUndefined = Inl (cannot_read ''0'')"
| "js_elem0 JNull = Inl (cannot_read ''0'')"
| "js_elem0 (JArr xs ps) = Inr (case xs of [] \<Rightarrow> JUndefined | x # rest \<Rightarrow> x)"
| "js_elem0 (JObj ps) = Inr (case map_of ps ''0'' of Some v \<Rightarrow> v | None \<Rightarrow> JUndefined)"
| "js_elem0 (JStr s) = Inr (case s of [] \<Rightarrow> JUndefined | c # rest \<Rightarrow> JStr [c])"
| "js_elem0 (JBool b) = Inr JUndefined"
| "js_elem0 (JNum n) = Inr JUndefined"

text \<open>
  \<^verbatim>\<open>v.k = x\<close> in a module (strict mode): the property is set on an object or an array; the
  assignment throws on \<^verbatim>\<open>undefined\<close>, \<^verbatim>\<open>null\<close> and on a primitive.
\<close>

fun js_set :: "jsval \<Rightarrow> string \<Rightarrow> jsval \<Rightarrow> js_error + jsval" where
  "js_set (JObj ps) k x = Inr (JObj (AList.update k x ps))"
| "js_set (JArr xs ps) k x = Inr (JArr xs (AList.update k x ps))"
| "js_set JUndefined k x = Inl (TypeError (''Cannot set properties of undefined (setting '' @ k @ '')''))"
| "js_set JNull k x = Inl (TypeError (''Cannot set properties of null (setting '' @ k @ '')''))"
| "js_set (JBool b) k x = Inl (TypeError (''Cannot create property '' @ k))"
| "js_set (JNum n) k x = Inl (TypeError (''Cannot create property '' @ k))"
| "js_set (JStr s) k x = Inl (TypeError (''Cannot create property '' @ k))"

text \<open>Truthiness, as \<^verbatim>\<open>!v\<close> tests it.\<close>

fun truthy :: "jsval \<Rightarrow> bool" where
  "truthy JUndefined = False"
| "truthy JNull = False"
| "truthy (JBool b) = b"
| "truthy (JNum n) = (n \<noteq> 0)"
| "truthy (JStr s) = (s \<noteq> [])"
| "truthy (JArr xs ps) = True"
| "truthy (JObj ps) = True"

definition toUpperCase_char :: "char \<Rightarrow> char" where
  "toUpperCase_char c =
     (let n = of_char c :: nat in if 97 \<le> n \<and> n \<le> 122 then char_of (n - 32) else c)"

definition toUpperCase :: "string \<Rightarrow> string" where
  "toUpperCase s = map toUpperCase_char s"

text \<open>\<^verbatim>\<open>v.toUpperCase()\<close>: only a string has the method.\<close>

fun call_toUpperCase :: "jsval \<Rightarrow> js_error + string" where
  "call_toUpperCase (JStr s) = Inr (toUpperCase s)"
| "call_toUpperCase JUndefined = Inl (cannot_read ''toUpperCase'')"
| "call_toUpperCase JNull = Inl (cannot_read ''toUpperCase'')"
| "call_toUpperCase (JBool b) = Inl (TypeError ''toUpperCase is not a function'')"
| "call_toUpperCase (JNum n) = Inl (TypeError ''toUpperCase is not a function'')"
| "call_toUpperCase (JArr xs ps) = Inl (TypeError ''toUpperCase is not a function'')"
| "call_toUpperCase (JObj ps) = Inl (TypeError ''toUpperCase is not a function'')"

definition startsWith :: "string \<Rightarrow> string \<Rightarrow> bool" where
  "startsWith s p = (take (length p) s = p)"

text \<open>
  The characters that \<^verbatim>\<open>String.prototype.trim\<close> strips, each as its UTF-8 bytes: the white
  space U+0009, U+000B, U+000C, U+0020, U+00A0, U+FEFF and the space separators U+1680,
  U+2000 to U+200A, U+202F, U+205F, U+3000, and the line terminators U+000A, U+000D, U+2028,
  U+2029.
\<close>

definition WhiteSpace :: "string list" where
  "WhiteSpace =
     [[CHR 0x09], [CHR 0x0A], [CHR 0x0B], [CHR 0x0C], [CHR 0x0D], [CHR 0x20],
      [CHR 0xC2, CHR 0xA0],
      [CHR 0xE1, CHR 0x9A, CHR 0x80],
      [CHR 0xE2, CHR 0x80, CHR 0x80], [CHR 0xE2, CHR 0x80, CHR 0x81],
      [CHR 0xE2, CHR 0x80, CHR 0x82], [CHR 0xE2, CHR 0x80, CHR 0x83],
      [CHR 0xE2, CHR 0x80, CHR 0x84], [CHR 0xE2, CHR 0x80, CHR 0x85],
      [CHR 0xE2, CHR 0x80, CHR 0x86], [CHR 0xE2, CHR 0x80, CHR 0x87],
      [CHR 0xE2, CHR 0x80, CHR 0x88], [CHR 0xE2, CHR 0x80, CHR 0x89],
      [CHR 0xE2, CHR 0x80, CHR 0x8A],
      [CHR 0xE2, CHR 0x80, CHR 0xA8], [CHR 0xE2, CHR 0x80, CHR 0xA9],
      [CHR 0xE2, CHR 0x80, CHR 0xAF],
      [CHR 0xE2, CHR 0x81, CHR 0x9F],
      [CHR 0xE3, CHR 0x80, CHR 0x80],
      [CHR 0xEF, CHR 0xBB, CHR 0xBF]]"

text \<open>Strip from the front, as long as the string starts with one of the given sequences.\<close>

function strip_leading :: "string list \<Rightarrow> string \<Rightarrow> string" where
  "strip_leading ws s =
     (case find (\<lambda>w. w \<noteq> [] \<and> startsWith s w) ws of
        None \<Rightarrow> s
      | Some w \<Rightarrow> strip_leading ws (drop (length w) s))"
  by pat_completeness auto
termination
proof (relation "measure (\<lambda>(ws, s). length s)")
  show "wf (measure (\<lambda>(ws, s). length s))" by simp
next
  fix ws :: "string list" and s w :: string
  assume "find (\<lambda>w. w \<noteq> [] \<and> startsWith s w) ws = Some w"
  then have "w \<noteq> []" and "startsWith s w"
    by (auto simp: find_Some_iff)
  then have "s \<noteq> []" by (auto simp: startsWith_def)
  with \<open>w \<noteq> []\<close> show "((ws, drop (length w) s), (ws, s)) \<in> measure (\<lambda>(ws, s). length s)"
    by simp
qed

declare strip_leading.simps [simp del]

text \<open>
  \<^verbatim>\<open>trim\<close>: white space is stripped from the front and from the end. No encoding of
  another character ends with the bytes of one of these characters, so the end is stripped
  on the reversed string with the reversed sequences.
\<close>

definition trim :: "string \<Rightarrow> string" where
  "trim s = rev (strip_leading (map rev WhiteSpace) (rev (strip_leading WhiteSpace s)))"

text \<open>\<^verbatim>\<open>xs.slice(-n)\<close>: the last \<open>n\<close> elements, all of them when there are fewer.\<close>

definition slice_last :: "nat \<Rightarrow> 'a list \<Rightarrow> 'a list" where
  "slice_last n xs = drop (length xs - n) xs"

text \<open>The decimal digits of a non-negative integer (\<^verbatim>\<open>toString\<close>, template literals).\<close>

function toString_nat :: "nat \<Rightarrow> string" where
  "toString_nat n =
     (if n < 10 then [char_of (48 + n)]
      else toString_nat (n div 10) @ [char_of (48 + n mod 10)])"
  by pat_completeness auto
termination
  by (relation "measure (\<lambda>n. n)") auto

declare toString_nat.simps [simp del]

text \<open>Sequencing of steps that may throw: the first error ends the sequence.\<close>

definition and_then :: "'e + 'a \<Rightarrow> ('a \<Rightarrow> 'e + 'b) \<Rightarrow> 'e + 'b" where
  "and_then r f = (case r of Inl e \<Rightarrow> Inl e | Inr x \<Rightarrow> f x)"

section \<open>Provider adapters (services/geminiService.ts, services/openRouterService.ts)\<close>

text \<open>The shape both adapters return, with the run-time values of its fields.\<close>

record analysis =
  mood_state :: jsval
  mode :: string
  response :: jsval

definition ALLOWED_MOODS :: "string list" where
  "ALLOWED_MOODS =
     [''Happy'', ''Sad'', ''Anxious'', ''Angry'', ''Neutral'',
      ''Excited'', ''Tired'', ''Fearful'', ''Surprised'',
      ''Frustrated'', ''Melancholy'']"

text \<open>\<^verbatim>\<open>ALLOWED_MOODS.includes(v)\<close>: only a string can equal a member.\<close>

fun ALLOWED_MOODS_includes :: "jsval \<Rightarrow> bool" where
  "ALLOWED_MOODS_includes (JStr s) = (s \<in> set ALLOWED_MOODS)"
| "ALLOWED_MOODS_includes v = False"

text \<open>
  \<^verbatim>\<open>analyzeMultimodalMood\<close>. The built-in \<^verbatim>\<open>JSON.parse\<close> is a parameter (\<open>None\<close> where it
  throws a SyntaxError), and so is the outcome of the one \<^verbatim>\<open>generateContent\<close> request:
  an error, or the \<^verbatim>\<open>text\<close> of the response (\<open>None\<close> for \<^verbatim>\<open>undefined\<close>). The request
  (parts, system instruction, schema) does not enter the result otherwise and is not
  modelled; neither is the diagnostic console output of the adapters. Whatever is thrown
  inside the \<^verbatim>\<open>try\<close> is replaced by one fixed \<^verbatim>\<open>Error\<close>.
\<close>

definition gemini_failure :: js_error where
  "gemini_failure = Error ''I couldn't process the emotional data right now. Please try again.''"

definition analyzeMultimodalMood_try ::
  "(jsval \<Rightarrow> jsval option) \<Rightarrow> js_error + string option \<Rightarrow> js_error + analysis" where
  "analyzeMultimodalMood_try JSON_parse generateContent_result =
     and_then generateContent_result (\<lambda>response_text.
     and_then (case JSON_parse (JStr (case response_text of
                                        None \<Rightarrow> ''{}''
                                      | Some t \<Rightarrow> if t = [] then ''{}'' else t)) of
                 None \<Rightarrow> Inl (SyntaxError ''Unexpected token'')
               | Some data \<Rightarrow> Inr data) (\<lambda>data.
     and_then (js_get data ''mood_state'') (\<lambda>ms.
     and_then (js_get ms ''dominant_mood'') (\<lambda>dm.
     and_then (if \<not> ALLOWED_MOODS_includes dm
               then js_set ms ''dominant_mood'' (JStr ''Neutral'') else Inr ms) (\<lambda>ms'.
     and_then (js_get data ''support_mode'') (\<lambda>sm.
     and_then (call_toUpperCase sm) (\<lambda>upper.
     and_then (js_get data ''message'') (\<lambda>msg.
       Inr \<lparr>mood_state = ms', mode = upper, response = msg\<rparr>))))))))"

definition analyzeMultimodalMood ::
  "(jsval \<Rightarrow> jsval option) \<Rightarrow> js_error + string option \<Rightarrow> js_error + analysis" where
  "analyzeMultimodalMood JSON_parse generateContent_result =
     (case analyzeMultimodalMood_try JSON_parse generateContent_result of
        Inl error \<Rightarrow> Inl gemini_failure
      | Inr result \<Rightarrow> Inr result)"

text \<open>\<^verbatim>\<open>coerceSupportMode\<close>, local to \<^verbatim>\<open>callOpenRouter\<close>.\<close>

definition coerceSupportMode :: "jsval \<Rightarrow> SupportMode" where
  "coerceSupportMode v =
     (let raw = (case v of JStr s \<Rightarrow> toUpperCase s | _ \<Rightarrow> [])
      in if raw = ''CALMING'' then CALMING
         else if raw = ''MOTIVATION'' then MOTIVATION
         else if raw = ''STABILITY'' then STABILITY
         else if raw = ''CRISIS_AWARE'' then CRISIS_AWARE
         else LISTENING)"

text \<open>What \<^verbatim>\<open>fetch\<close> resolves to: the fields and method results that the adapter reads.\<close>

record http_response =
  ok :: bool
  status :: nat
  statusText :: string
  text_result :: string
  json_result :: "js_error + jsval"

definition default_mood_state :: jsval where
  "default_mood_state =
     JObj [(''dominant_mood'', JStr ''Neutral''), (''energy_level'', JStr ''medium''),
           (''stability'', JStr ''stable''), (''risk_score'', JNum 0)]"

text \<open>\<^verbatim>\<open>data.choices[0].message.content\<close>.\<close>

definition choices0_message_content :: "jsval \<Rightarrow> js_error + jsval" where
  "choices0_message_content data =
     and_then (js_get data ''choices'') (\<lambda>choices.
     and_then (js_elem0 choices) (\<lambda>choice.
     and_then (js_get choice ''message'') (\<lambda>msg.
       js_get msg ''content'')))"

text \<open>
  The inner \<^verbatim>\<open>try\<close> of \<^verbatim>\<open>callOpenRouter\<close>: \<^verbatim>\<open>JSON.parse(content)\<close> and the reads of the
  parsed value. \<^verbatim>\<open>parsed.mood_state\<close> is passed on as it is.
\<close>

definition callOpenRouter_parse :: "(jsval \<Rightarrow> jsval option) \<Rightarrow> jsval \<Rightarrow> js_error + analysis" where
  "callOpenRouter_parse JSON_parse content =
     (case JSON_parse content of
        None \<Rightarrow> Inl (SyntaxError ''Unexpected token'')
      | Some parsed \<Rightarrow>
          and_then (js_get parsed ''mood_state'') (\<lambda>ms.
          and_then (js_get parsed ''support_mode'') (\<lambda>sm.
          and_then (js_get parsed ''message'') (\<lambda>msg.
            Inr \<lparr>mood_state = ms, mode = SupportMode_value (coerceSupportMode sm),
                 response = msg\<rparr>))))"

text \<open>
  The inner \<^verbatim>\<open>try\<close> with its \<^verbatim>\<open>catch\<close> (\<^verbatim>\<open>Parse JSON safely\<close>): whatever the
  \<^verbatim>\<open>try\<close> throws, the fallback is returned, with the raw content as the response.
\<close>

definition callOpenRouter_parse_safely :: "(jsval \<Rightarrow> jsval option) \<Rightarrow> jsval \<Rightarrow> analysis" where
  "callOpenRouter_parse_safely JSON_parse content =
     (case callOpenRouter_parse JSON_parse content of
        Inr result \<Rightarrow> result
      | Inl e \<Rightarrow>
          \<lparr>mood_state = default_mood_state,
           mode = SupportMode_value LISTENING,
           response = content\<rparr>)"

text \<open>
  \<^verbatim>\<open>callOpenRouter\<close>. Parameters: \<^verbatim>\<open>JSON.parse\<close>, the configured API key (\<open>None\<close> when
  the variable is not set) and the outcome of the one \<^verbatim>\<open>fetch\<close>. The outer \<^verbatim>\<open>catch\<close>
  logs and rethrows, so an error of the outer block is the result.
\<close>

definition callOpenRouter ::
  "(jsval \<Rightarrow> jsval option) \<Rightarrow> string option \<Rightarrow> js_error + http_response \<Rightarrow> js_error + analysis" where
  "callOpenRouter JSON_parse OPENROUTER_API_KEY fetch_result =
     (if OPENROUTER_API_KEY = None \<or> OPENROUTER_API_KEY = Some []
      then Inl (Error ''OpenRouter API Key is missing'')
      else
        and_then fetch_result (\<lambda>resp.
          if \<not> ok resp
          then Inl (Error (''OpenRouter API Error ('' @ toString_nat (status resp) @ ''): '' @
                      (if text_result resp \<noteq> [] then text_result resp else statusText resp)))
          else
            and_then (json_result resp) (\<lambda>data.
            and_then (choices0_message_content data) (\<lambda>content.
              Inr (callOpenRouter_parse_safely JSON_parse content)))))"

section \<open>Persistence adapter (services/cloudService.ts)\<close>

text \<open>Chat records (types.ts). A message's optional fields are \<^verbatim>\<open>undefined\<close> when absent.\<close>

datatype Role = User | Assistant | System

record Message =
  msg_id :: string
  role :: Role
  content :: jsval
  timestamp :: nat
  msg_mood_state :: jsval
  msg_mode :: "string option"

record Conversation =
  conv_id :: string
  title :: string
  created_at :: string

text \<open>The rows that the adapter writes.\<close>

record mood_logs_row =
  row_user_id :: string
  row_date :: string
  row_mood :: string
  row_energy :: string
  row_score :: int

record messages_row =
  row_conversation_id :: string
  row_msg_user_id :: string
  row_role :: Role
  row_content :: jsval
  row_timestamp :: nat
  row_mood_state :: jsval

text \<open>
  The hosted backend is outside the repository. A value of \<open>supabase\<close> fixes what the client
  SDK answers: the signed-in user (if any) and, for each request, the error it reports or
  the data it returns. Each call of the SDK that the adapter makes is recorded as a
  \<open>backend_call\<close>; all but the look-up of the signed-in user read or write a table.
\<close>

datatype backend_call =
    Auth_getUser
  | MoodLogs_upsert mood_logs_row string
  | Conversations_insert string string
  | Conversations_select
  | Messages_insert messages_row
  | Messages_select string

fun is_persistence :: "backend_call \<Rightarrow> bool" where
  "is_persistence Auth_getUser = False"
| "is_persistence (MoodLogs_upsert r k) = True"
| "is_persistence (Conversations_insert u t) = True"
| "is_persistence Conversations_select = True"
| "is_persistence (Messages_insert r) = True"
| "is_persistence (Messages_select c) = True"

record supabase =
  auth_getUser :: "string option"
  mood_logs_upsert :: "mood_logs_row \<Rightarrow> js_error option"
  conversations_insert :: "string \<Rightarrow> string \<Rightarrow> js_error + string"
  messages_insert :: "messages_row \<Rightarrow> js_error option"
  messages_select :: "string \<Rightarrow> js_error + Message list"

text \<open>
  \<^verbatim>\<open>saveMoodEntry\<close>: no signed-in user, no request; otherwise one upsert on the conflict key
  \<^verbatim>\<open>user_id,date\<close>, whose error (if any) is thrown.
\<close>

definition saveMoodEntry :: "supabase \<Rightarrow> MoodLogEntry \<Rightarrow> backend_call list \<times> (js_error + unit)" where
  "saveMoodEntry sb entry =
     (case auth_getUser sb of
        None \<Rightarrow> ([Auth_getUser], Inr ())
      | Some uid \<Rightarrow>
          (let row = \<lparr>row_user_id = uid, row_date = date entry, row_mood = mood entry,
                      row_energy = energy entry, row_score = score entry\<rparr>
           in ([Auth_getUser, MoodLogs_upsert row ''user_id,date''],
               (case mood_logs_upsert sb row of Some error \<Rightarrow> Inl error | None \<Rightarrow> Inr ()))))"

text \<open>\<^verbatim>\<open>createConversation\<close>: throws \<^verbatim>\<open>Unauthorized\<close> without a signed-in user.\<close>

definition createConversation :: "supabase \<Rightarrow> string \<Rightarrow> backend_call list \<times> (js_error + string)" where
  "createConversation sb session_title =
     (case auth_getUser sb of
        None \<Rightarrow> ([Auth_getUser], Inl (Error ''Unauthorized''))
      | Some uid \<Rightarrow>
          ([Auth_getUser, Conversations_insert uid session_title],
           conversations_insert sb uid session_title))"

text \<open>
  \<^verbatim>\<open>getConversations\<close>, given the answer to its select: the empty list on an error. It
  never throws.
\<close>

definition getConversations ::
  "js_error + Conversation list \<Rightarrow> backend_call list \<times> Conversation list" where
  "getConversations select_result =
     ([Conversations_select], (case select_result of Inl error \<Rightarrow> [] | Inr data \<Rightarrow> data))"

definition saveMessage :: "supabase \<Rightarrow> Message \<Rightarrow> string \<Rightarrow> backend_call list \<times> (js_error + unit)" where
  "saveMessage sb msg conversationId =
     (case auth_getUser sb of
        None \<Rightarrow> ([Auth_getUser], Inr ())
      | Some uid \<Rightarrow>
          (let row = \<lparr>row_conversation_id = conversationId, row_msg_user_id = uid,
                      row_role = role msg, row_content = content msg,
                      row_timestamp = timestamp msg, row_mood_state = msg_mood_state msg\<rparr>
           in ([Auth_getUser, Messages_insert row],
               (case messages_insert sb row of Some error \<Rightarrow> Inl error | None \<Rightarrow> Inr ()))))"

definition getMessages :: "supabase \<Rightarrow> string \<Rightarrow> backend_call list \<times> Message list" where
  "getMessages sb conversationId =
     ([Messages_select conversationId],
      (case messages_select sb conversationId of Inl error \<Rightarrow> [] | Inr data \<Rightarrow> data))"

text \<open>
  What the backend does with an accepted upsert is not code of the repository. It is
  modelled as the request describes it: the conflict key is a comma-separated list of
  column names; a stored row that agrees with the new row on every column of the key is
  replaced by it, and the new row is inserted when there is no such row. The table is given
  no uniqueness rule of its own, so what is kept is kept by the key that the request names.
\<close>

fun split_comma :: "string \<Rightarrow> string list" where
  "split_comma [] = [[]]"
| "split_comma (c # cs) =
     (if c = CHR '','' then [] # split_comma cs
      else (case split_comma cs of
              [] \<Rightarrow> [[c]]
            | w # ws \<Rightarrow> (c # w) # ws))"

definition column :: "string \<Rightarrow> mood_logs_row \<Rightarrow> jsval option" where
  "column c r =
     (if c = ''user_id'' then Some (JStr (row_user_id r))
      else if c = ''date'' then Some (JStr (row_date r))
      else if c = ''mood'' then Some (JStr (row_mood r))
      else if c = ''energy'' then Some (JStr (row_energy r))
      else if c = ''score'' then Some (JNum (of_int (row_score r)))
      else None)"

definition conflict :: "string list \<Rightarrow> mood_logs_row \<Rightarrow> mood_logs_row \<Rightarrow> bool" where
  "conflict cols x r = list_all (\<lambda>c. column c x \<noteq> None \<and> column c x = column c r) cols"

fun upsert_onConflict :: "string list \<Rightarrow> mood_logs_row \<Rightarrow> mood_logs_row list \<Rightarrow> mood_logs_row list" where
  "upsert_onConflict cols r [] = [r]"
| "upsert_onConflict cols r (x # xs) =
     (if conflict cols x r then r # xs else x # upsert_onConflict cols r xs)"

text \<open>The key of the invariant: one row for a user and a day.\<close>

definition row_key :: "mood_logs_row \<Rightarrow> string \<times> string" where
  "row_key r = (row_user_id r, row_date r)"

fun apply_call :: "supabase \<Rightarrow> backend_call \<Rightarrow> mood_logs_row list \<Rightarrow> mood_logs_row list" where
  "apply_call sb (MoodLogs_upsert r onConflict) table =
     (case mood_logs_upsert sb r of
        None \<Rightarrow> upsert_onConflict (split_comma onConflict) r table
      | Some error \<Rightarrow> table)"
| "apply_call sb Auth_getUser table = table"
| "apply_call sb (Conversations_insert u t) table = table"
| "apply_call sb Conversations_select table = table"
| "apply_call sb (Messages_insert r) table = table"
| "apply_call sb (Messages_select c) table = table"

definition apply_calls :: "supabase \<Rightarrow> backend_call list \<Rightarrow> mood_logs_row list \<Rightarrow> mood_logs_row list" where
  "apply_calls sb calls table = foldl (\<lambda>t c. apply_call sb c t) table calls"

section \<open>Effects of the handlers\<close>

text \<open>
  What a handler does besides updating its component's state, in the order it happens: a
  call of the backend SDK, a call of a provider adapter with its arguments, a call of the
  \<^verbatim>\<open>onMoodDetected\<close> property, a \<^verbatim>\<open>console.warn\<close> or \<^verbatim>\<open>console.error\<close> of a caught error.
  Informational \<^verbatim>\<open>console.log\<close> lines are left out.
\<close>

type_synonym turn = "Role \<times> jsval"

datatype effect =
    Backend backend_call
  | Call_analyzeMultimodalMood string "turn list"
  | Call_callOpenRouter "turn list"
  | OnMoodDetected jsval string
  | Console_warn js_error
  | Console_error js_error

fun backend_calls :: "effect list \<Rightarrow> backend_call list" where
  "backend_calls [] = []"
| "backend_calls (Backend c # es) = c # backend_calls es"
| "backend_calls (e # es) = backend_calls es"

fun is_provider_call :: "effect \<Rightarrow> bool" where
  "is_provider_call (Call_analyzeMultimodalMood t h) = True"
| "is_provider_call (Call_callOpenRouter h) = True"
| "is_provider_call e = False"

fun is_OnMoodDetected :: "effect \<Rightarrow> bool" where
  "is_OnMoodDetected (OnMoodDetected m v) = True"
| "is_OnMoodDetected e = False"

section \<open>Mood-log merge (App.handleMoodDetected)\<close>

text \<open>\<^verbatim>\<open>Array.prototype.findIndex\<close>: the first index whose element passes the test, or -1.\<close>

fun findIndex :: "('a \<Rightarrow> bool) \<Rightarrow> 'a list \<Rightarrow> int" where
  "findIndex P [] = - 1"
| "findIndex P (x # xs) =
     (if P x then 0 else (let i = findIndex P xs in if i < 0 then - 1 else i + 1))"

text \<open>The state of \<^verbatim>\<open>App\<close> that \<^verbatim>\<open>handleMoodDetected\<close> reads or writes.\<close>

record App_state =
  currentMood :: "MoodState option"
  supportMode :: string
  isGuest :: bool
  moodLogs :: "MoodLogEntry list"

text \<open>The updater passed to \<^verbatim>\<open>setMoodLogs\<close>.\<close>

definition setMoodLogs_updater :: "string \<Rightarrow> MoodLogEntry \<Rightarrow> MoodLogEntry list \<Rightarrow> MoodLogEntry list" where
  "setMoodLogs_updater today newEntry prev =
     (let existingIndex = findIndex (\<lambda>l. date l = today) prev
      in if existingIndex \<ge> 0 then prev[nat existingIndex := newEntry]
         else prev @ [newEntry])"

text \<open>
  Arithmetic on numbers is IEEE 754 binary64 arithmetic: the exact result is rounded to the
  nearest double, a tie to the even significand. \<open>to_double\<close> is that rounding on the
  rationals, with 53 significant bits and the subnormal spacing below the normal range.
  Overflow to an infinity and NaN are outside the model: a risk score is a finite number of
  moderate size.
\<close>

function bit_length :: "int \<Rightarrow> nat" where
  "bit_length n = (if n \<le> 0 then 0 else Suc (bit_length (n div 2)))"
  by pat_completeness auto
termination
  by (relation "measure nat") auto

declare bit_length.simps [simp del]

definition pow2 :: "int \<Rightarrow> rat" where
  "pow2 k = (if 0 \<le> k then 2 ^ nat k else 1 / 2 ^ nat (- k))"

text \<open>For a positive \<open>x\<close>, the exponent \<open>e\<close> with \<open>pow2 e \<le> x < pow2 (e + 1)\<close>.\<close>

definition floor_log2 :: "rat \<Rightarrow> int" where
  "floor_log2 x =
     (case quotient_of x of
        (p, q) \<Rightarrow>
          (let d = int (bit_length p) - int (bit_length q)
           in if pow2 d \<le> x then d else d - 1))"

definition round_half_even :: "rat \<Rightarrow> int" where
  "round_half_even y =
     (let f = \<lfloor>y\<rfloor>; d = y - of_int f
      in if d < 1 / 2 then f
         else if 1 / 2 < d then f + 1
         else if even f then f else f + 1)"

definition to_double :: "rat \<Rightarrow> rat" where
  "to_double x =
     (if x = 0 then 0
      else (let e = floor_log2 \<bar>x\<bar>;
                ulp = pow2 (max (e - 52) (- 1074))
            in ulp * of_int (round_half_even (x / ulp))))"

text \<open>
  \<^verbatim>\<open>Math.round\<close> rounds a number to the nearest integer, a tie towards plus infinity; the
  result is exact.
\<close>

definition Math_round :: "rat \<Rightarrow> int" where
  "Math_round x = \<lfloor>x + 1 / 2\<rfloor>"

text \<open>The new entry, with \<^verbatim>\<open>Math.round((1 - mood.risk_score) * 100)\<close> as its score.\<close>

definition newEntry_of :: "string \<Rightarrow> MoodState \<Rightarrow> MoodLogEntry" where
  "newEntry_of today m =
     \<lparr>date = today, mood = dominant_mood m, energy = energy_level m,
      score = Math_round (to_double (to_double (1 - to_double (risk_score m)) * 100))\<rparr>"

text \<open>
  \<^verbatim>\<open>handleMoodDetected\<close>, on a mood of the declared type. \<open>today\<close> is the UTC date
  (YYYY-MM-DD) of the clock at the call. The result is the new state and the effects; a
  rejection of \<^verbatim>\<open>saveMoodEntry\<close> goes to \<^verbatim>\<open>console.error\<close> and the handler's promise
  resolves.
\<close>

definition handleMoodDetected ::
  "supabase \<Rightarrow> string \<Rightarrow> MoodState \<Rightarrow> string \<Rightarrow> App_state \<Rightarrow> App_state \<times> effect list" where
  "handleMoodDetected sb today m mode_v s =
     (let newEntry = newEntry_of today m;
          s' = s\<lparr>currentMood := Some m, supportMode := mode_v,
                 moodLogs := setMoodLogs_updater today newEntry (moodLogs s)\<rparr>
      in if \<not> isGuest s then
           (case saveMoodEntry sb newEntry of
              (calls, Inl error) \<Rightarrow> (s', map Backend calls @ [Console_error error])
            | (calls, Inr u) \<Rightarrow> (s', map Backend calls))
         else (s', []))"

section \<open>Chat orchestration (ChatWindow)\<close>

record ChatWindow_state =
  conversations :: "Conversation list"
  activeConvId :: "string option"
  messages :: "Message list"
  inputText :: string
  isTyping :: bool
  showHistory :: bool

text \<open>
  What the component's surroundings answer during one run of a handler: browser storage,
  the backend, the two provider adapters (each a function of the arguments it is called
  with) and the clock. The readings taken while one message is built are taken to be equal:
  there is one reading for each message, one for a temporary conversation id, and the
  session title made from the time of day.
\<close>

record ChatWindow_env =
  localStorage_getItem :: "string \<Rightarrow> string option"
  cloud :: supabase
  analyzeMultimodalMood_result :: "string \<Rightarrow> turn list \<Rightarrow> js_error + analysis"
  callOpenRouter_result :: "turn list \<Rightarrow> js_error + analysis"
  now_userMsg :: nat
  now_assistantMsg :: nat
  now_errorMsg :: nat
  now_newChat :: nat
  newChat_title :: string

text \<open>
  \<^verbatim>\<open>loadConversations\<close> and \<^verbatim>\<open>startNewChat\<close> call each other without awaiting. The
  successive answers to the conversations select are a list, one per call; \<open>None\<close> means
  that the list ran out before the run ended. \<open>closure_activeConvId\<close> is the active
  conversation id of the render that created the two functions, which is the value that
  \<^verbatim>\<open>loadConversations\<close> tests. Neither function reads the guest flag.
\<close>

fun loadConversations ::
    "ChatWindow_env \<Rightarrow> (js_error + Conversation list) list \<Rightarrow> string option \<Rightarrow>
       ChatWindow_state \<Rightarrow> (ChatWindow_state \<times> effect list) option"
  and startNewChat ::
    "ChatWindow_env \<Rightarrow> (js_error + Conversation list) list \<Rightarrow> string option \<Rightarrow>
       ChatWindow_state \<Rightarrow> (ChatWindow_state \<times> effect list) option"
where
  "loadConversations env [] closure_activeConvId s = None"
| "loadConversations env (select_result # later) closure_activeConvId s =
     (case getConversations select_result of
        (calls, data) \<Rightarrow>
          (let s1 = s\<lparr>conversations := data\<rparr>
           in case data of
                first # others \<Rightarrow>
                  if closure_activeConvId = None \<or> closure_activeConvId = Some []
                  then Some (s1\<lparr>activeConvId := Some (conv_id first)\<rparr>, map Backend calls)
                  else Some (s1, map Backend calls)
              | [] \<Rightarrow>
                  (case startNewChat env later closure_activeConvId s1 of
                     None \<Rightarrow> None
                   | Some (s2, es) \<Rightarrow> Some (s2, map Backend calls @ es))))"
| "startNewChat env selects closure_activeConvId s =
     (case createConversation (cloud env) (newChat_title env) of
        (calls, Inr new_id) \<Rightarrow>
          (case loadConversations env selects closure_activeConvId
                  (s\<lparr>activeConvId := Some new_id, messages := [], showHistory := False\<rparr>) of
             None \<Rightarrow> None
           | Some (s2, es) \<Rightarrow> Some (s2, map Backend calls @ es))
      | (calls, Inl e) \<Rightarrow>
          Some (s\<lparr>activeConvId := Some (''temp-'' @ toString_nat (now_newChat env)),
                  messages := []\<rparr>,
                map Backend calls))"

definition loadMessages :: "ChatWindow_env \<Rightarrow> string \<Rightarrow> ChatWindow_state \<Rightarrow> ChatWindow_state \<times> effect list" where
  "loadMessages env conversationId s =
     (case getMessages (cloud env) conversationId of
        (calls, data) \<Rightarrow> (s\<lparr>messages := data\<rparr>, map Backend calls))"

text \<open>The three messages that \<^verbatim>\<open>handleSend\<close> builds.\<close>

definition userMsg_of :: "ChatWindow_env \<Rightarrow> string \<Rightarrow> Message" where
  "userMsg_of env text =
     \<lparr>msg_id = toString_nat (now_userMsg env), role = User, content = JStr text,
      timestamp = now_userMsg env, msg_mood_state = JUndefined, msg_mode = None\<rparr>"

definition assistantMsg_of :: "ChatWindow_env \<Rightarrow> analysis \<Rightarrow> Message" where
  "assistantMsg_of env data =
     \<lparr>msg_id = toString_nat (now_assistantMsg env + 1), role = Assistant,
      content = response data, timestamp = now_assistantMsg env,
      msg_mood_state = mood_state data, msg_mode = Some (mode data)\<rparr>"

text \<open>
  The error text, as the source file has it: the literal opens with the four bytes
  C3 A2 C5 92 (the characters U+00E2 and U+0152).
\<close>

definition errorMsg_of :: "ChatWindow_env \<Rightarrow> js_error \<Rightarrow> Message" where
  "errorMsg_of env error =
     \<lparr>msg_id = toString_nat (now_errorMsg env + 1), role = Assistant,
      content = JStr ([CHR 0xC3, CHR 0xA2, CHR 0xC5, CHR 0x92] @
                       '' Sorry, I encountered an error: '' @
                       (if message error \<noteq> [] then message error else ''Unknown error'') @
                       ''. Please check your API keys in .env and try again.''),
      timestamp = now_errorMsg env, msg_mood_state = JUndefined, msg_mode = None\<rparr>"

text \<open>
  The history sent to the providers: role and content of the last five messages of the
  transcript that the handler's closure holds, which does not yet contain the new message.
\<close>

definition history_of :: "Message list \<Rightarrow> turn list" where
  "history_of msgs = map (\<lambda>m. (role m, content m)) (slice_last 5 msgs)"

text \<open>
  The inner \<^verbatim>\<open>try\<close>/\<^verbatim>\<open>catch\<close> of \<^verbatim>\<open>handleSend\<close>: Provider A, and Provider B only in the
  handler of A's error. The result is the effects and what \<^verbatim>\<open>data\<close> becomes, or the error
  that B throws.
\<close>

definition provider_attempts ::
  "ChatWindow_env \<Rightarrow> string \<Rightarrow> Message list \<Rightarrow> effect list \<times> (js_error + analysis)" where
  "provider_attempts env textToSend msgs =
     (case analyzeMultimodalMood_result env textToSend (history_of msgs) of
        Inr data \<Rightarrow> ([Call_analyzeMultimodalMood textToSend (history_of msgs)], Inr data)
      | Inl geminiError \<Rightarrow>
          (let openRouterHistory = history_of msgs @ [(User, JStr textToSend)]
           in ([Call_analyzeMultimodalMood textToSend (history_of msgs),
                Console_warn geminiError,
                Call_callOpenRouter openRouterHistory],
               callOpenRouter_result env openRouterHistory)))"

text \<open>The outer \<^verbatim>\<open>catch\<close>: two \<^verbatim>\<open>console.error\<close> calls and the error message in the transcript.\<close>

definition handleSend_catch ::
  "ChatWindow_env \<Rightarrow> js_error \<Rightarrow> ChatWindow_state \<Rightarrow> ChatWindow_state \<times> effect list" where
  "handleSend_catch env error s =
     (s\<lparr>messages := messages s @ [errorMsg_of env error]\<rparr>,
      [Console_error error, Console_error error])"

text \<open>
  Both \<^verbatim>\<open>saveMessage\<close> calls stand under the same test: not a guest, and not a temporary
  conversation.
\<close>

definition persists :: "ChatWindow_env \<Rightarrow> string \<Rightarrow> bool" where
  "persists env convId =
     (\<not> (localStorage_getItem env ''md_is_guest'' = Some ''true'') \<and> \<not> startsWith convId ''temp'')"

definition save_if_persisting ::
  "ChatWindow_env \<Rightarrow> Message \<Rightarrow> string \<Rightarrow> backend_call list \<times> (js_error + unit)" where
  "save_if_persisting env msg convId =
     (if persists env convId then saveMessage (cloud env) msg convId else ([], Inr ()))"

text \<open>
  The outer \<^verbatim>\<open>try\<close> with its \<^verbatim>\<open>catch\<close>. \<open>msgs\<close> is the transcript of the closure and
  \<open>s\<close> the current state. An adapter returns an object, so \<^verbatim>\<open>!data\<close> is false and the
  test is on \<^verbatim>\<open>data.response\<close>. The call of \<^verbatim>\<open>onMoodDetected\<close> is recorded with its
  arguments; the property is an async function, whose call does not throw.
\<close>

definition handleSend_try ::
  "ChatWindow_env \<Rightarrow> string \<Rightarrow> Message list \<Rightarrow> string \<Rightarrow> ChatWindow_state \<Rightarrow>
     ChatWindow_state \<times> effect list" where
  "handleSend_try env textToSend msgs convId s =
     (case provider_attempts env textToSend msgs of
        (es, Inl error) \<Rightarrow>
          (case handleSend_catch env error s of (s', es') \<Rightarrow> (s', es @ es'))
      | (es, Inr data) \<Rightarrow>
          if \<not> truthy (response data)
          then (case handleSend_catch env (Error ''No response received from AI'') s of
                  (s', es') \<Rightarrow> (s', es @ es'))
          else
            (let assistantMsg = assistantMsg_of env data;
                 s1 = s\<lparr>messages := messages s @ [assistantMsg]\<rparr>;
                 es1 = es @ [OnMoodDetected (mood_state data) (mode data)]
             in case save_if_persisting env assistantMsg convId of
                  (calls, Inl error) \<Rightarrow>
                    (case handleSend_catch env error s1 of
                       (s', es') \<Rightarrow> (s', es1 @ map Backend calls @ es'))
                | (calls, Inr u) \<Rightarrow> (s1, es1 @ map Backend calls)))"

text \<open>
  \<^verbatim>\<open>handleSend\<close>: the new state, the effects, and the error with which the handler's promise
  rejects (\<open>None\<close> when it resolves). The first \<^verbatim>\<open>saveMessage\<close> is awaited before the
  \<^verbatim>\<open>try\<close>: when it throws, nothing after it runs, the \<^verbatim>\<open>finally\<close> included.
\<close>

definition handleSend ::
  "ChatWindow_env \<Rightarrow> ChatWindow_state \<Rightarrow> ChatWindow_state \<times> effect list \<times> js_error option" where
  "handleSend env s =
     (case activeConvId s of
        None \<Rightarrow> (s, [], None)
      | Some convId \<Rightarrow>
          if trim (inputText s) = [] \<or> isTyping s \<or> convId = [] then (s, [], None)
          else
            (let userMsg = userMsg_of env (inputText s);
                 textToSend = inputText s;
                 s1 = s\<lparr>messages := messages s @ [userMsg], inputText := [], isTyping := True\<rparr>
             in case save_if_persisting env userMsg convId of
                  (calls, Inl error) \<Rightarrow> (s1, map Backend calls, Some error)
                | (calls, Inr u) \<Rightarrow>
                    (case handleSend_try env textToSend (messages s) convId s1 of
                       (s2, es) \<Rightarrow> (s2\<lparr>isTyping := False\<rparr>, map Backend calls @ es, None))))"

section \<open>Example data\<close>

definition mood_calm :: MoodState where
  "mood_calm = \<lparr>dominant_mood = ''Happy'', energy_level = ''high'', stability = ''stable'',
                 risk_score = 1 / 10\<rparr>"

definition mood_low :: MoodState where
  "mood_low = \<lparr>dominant_mood = ''Sad'', energy_level = ''low'', stability = ''fragile'',
                risk_score = 7 / 10\<rparr>"

definition entry_mon :: MoodLogEntry where
  "entry_mon = \<lparr>date = ''2026-03-02'', mood = ''Tired'', energy = ''low'', score = 60\<rparr>"

definition entry_tue :: MoodLogEntry where
  "entry_tue = \<lparr>date = ''2026-03-03'', mood = ''Anxious'', energy = ''medium'', score = 45\<rparr>"

definition app_signed_in :: App_state where
  "app_signed_in = \<lparr>currentMood = None, supportMode = ''LISTENING'', isGuest = False,
                     moodLogs = [entry_mon, entry_tue]\<rparr>"

definition app_guest :: App_state where
  "app_guest = \<lparr>currentMood = None, supportMode = ''LISTENING'', isGuest = True,
                 moodLogs = [entry_mon, entry_tue]\<rparr>"

text \<open>Backends: one that accepts every request, one without a signed-in user, two that fail.\<close>

definition sb_ok :: supabase where
  "sb_ok = \<lparr>auth_getUser = Some ''u1'', mood_logs_upsert = (\<lambda>r. None),
            conversations_insert = (\<lambda>u t. Inr ''c2''), messages_insert = (\<lambda>r. None),
            messages_select = (\<lambda>c. Inr [])\<rparr>"

definition sb_anonymous :: supabase where
  "sb_anonymous = sb_ok\<lparr>auth_getUser := None\<rparr>"

definition db_down :: js_error where
  "db_down = Error ''db down''"

definition sb_down :: supabase where
  "sb_down = sb_ok\<lparr>mood_logs_upsert := (\<lambda>r. Some db_down),
                    messages_insert := (\<lambda>r. Some db_down)\<rparr>"

definition sb_reply_rejected :: supabase where
  "sb_reply_rejected =
     sb_ok\<lparr>messages_insert := (\<lambda>r. if row_role r = Assistant then Some db_down else None)\<rparr>"

definition table_two :: "mood_logs_row list" where
  "table_two =
     [\<lparr>row_user_id = ''u2'', row_date = ''2026-03-03'', row_mood = ''Sad'',
       row_energy = ''low'', row_score = 30\<rparr>,
      \<lparr>row_user_id = ''u1'', row_date = ''2026-03-03'', row_mood = ''Anxious'',
       row_energy = ''medium'', row_score = 45\<rparr>]"

text \<open>
  Provider answers. \<open>JSON_parse_sample\<close> is \<^verbatim>\<open>JSON.parse\<close> on the three texts used below:
  two JSON documents and one text that is not JSON.
\<close>

definition text_off_list_mode :: string where
  \<open>text_off_list_mode =
     ''{"mood_state":{"dominant_mood":"Happy","energy_level":"high","stability":"stable","risk_score":0.1},"support_mode":"banana","message":"Glad to hear it."}''\<close>

definition value_off_list_mode :: jsval where
  "value_off_list_mode =
     JObj [(''mood_state'',
            JObj [(''dominant_mood'', JStr ''Happy''), (''energy_level'', JStr ''high''),
                  (''stability'', JStr ''stable''), (''risk_score'', JNum (1 / 10))]),
           (''support_mode'', JStr ''banana''),
           (''message'', JStr ''Glad to hear it.'')]"

definition text_off_list_mood :: string where
  \<open>text_off_list_mood =
     ''{"mood_state":{"dominant_mood":"Ecstatic","energy_level":"high","stability":"stable","risk_score":0.1},"support_mode":"calming","message":"That sounds wonderful."}''\<close>

definition mood_state_ecstatic :: jsval where
  "mood_state_ecstatic =
     JObj [(''dominant_mood'', JStr ''Ecstatic''), (''energy_level'', JStr ''high''),
           (''stability'', JStr ''stable''), (''risk_score'', JNum (1 / 10))]"

definition value_off_list_mood :: jsval where
  "value_off_list_mood =
     JObj [(''mood_state'', mood_state_ecstatic),
           (''support_mode'', JStr ''calming''),
           (''message'', JStr ''That sounds wonderful.'')]"

definition text_not_json :: string where
  "text_not_json = ''I am sorry you feel this way. Tell me more.''"

definition JSON_parse_sample :: "jsval \<Rightarrow> jsval option" where
  "JSON_parse_sample v =
     (if v = JStr text_off_list_mode then Some value_off_list_mode
      else if v = JStr text_off_list_mood then Some value_off_list_mood
      else None)"

text \<open>A successful chat-completion response whose message content is the given text.\<close>

definition completion_with :: "string \<Rightarrow> http_response" where
  "completion_with text =
     \<lparr>ok = True, status = 200, statusText = ''OK'', text_result = [],
      json_result = Inr (JObj [(''choices'',
        JArr [JObj [(''message'',
                JObj [(''role'', JStr ''assistant''), (''content'', JStr text)])]] [])])\<rparr>"

text \<open>Chat states and surroundings.\<close>

definition earlier_msg :: Message where
  "earlier_msg = \<lparr>msg_id = ''1700000000000'', role = Assistant, content = JStr ''How are you today?'',
                   timestamp = 1700000000000, msg_mood_state = JUndefined, msg_mode = None\<rparr>"

definition chat_ready :: ChatWindow_state where
  "chat_ready = \<lparr>conversations = [], activeConvId = Some ''c1'', messages = [earlier_msg],
                  inputText = ''I feel stuck'', isTyping = False, showHistory = False\<rparr>"

text \<open>A no-break space, a blank, an ideographic space and a line feed.\<close>

definition blank_input :: string where
  "blank_input = [CHR 0xC2, CHR 0xA0, CHR 0x20, CHR 0xE3, CHR 0x80, CHR 0x80, CHR 0x0A]"

definition chat_mounting :: ChatWindow_state where
  "chat_mounting = \<lparr>conversations = [], activeConvId = None, messages = [],
                     inputText = [], isTyping = False, showHistory = False\<rparr>"

definition provider_down :: js_error where
  "provider_down = Error ''provider unavailable''"

definition reply_ok :: analysis where
  "reply_ok = \<lparr>mood_state = default_mood_state, mode = ''LISTENING'',
                response = JStr ''I hear you.''\<rparr>"

definition env_both_fail :: ChatWindow_env where
  "env_both_fail =
     \<lparr>localStorage_getItem = (\<lambda>k. None), cloud = sb_ok,
      analyzeMultimodalMood_result = (\<lambda>t h. Inl gemini_failure),
      callOpenRouter_result = (\<lambda>h. Inl provider_down),
      now_userMsg = 1700000001000, now_assistantMsg = 1700000002000,
      now_errorMsg = 1700000003000, now_newChat = 1700000000500,
      newChat_title = ''Session 10:15''\<rparr>"

definition env_fallback :: ChatWindow_env where
  "env_fallback = env_both_fail\<lparr>callOpenRouter_result := (\<lambda>h. Inr reply_ok)\<rparr>"

definition env_primary :: ChatWindow_env where
  "env_primary = env_both_fail\<lparr>analyzeMultimodalMood_result := (\<lambda>t h. Inr reply_ok)\<rparr>"

definition env_guest :: ChatWindow_env where
  "env_guest =
     env_primary\<lparr>localStorage_getItem := (\<lambda>k. if k = ''md_is_guest'' then Some ''true'' else None),
                  cloud := sb_anonymous\<rparr>"

definition env_db_down :: ChatWindow_env where
  "env_db_down = env_primary\<lparr>cloud := sb_down\<rparr>"

definition env_reply_rejected :: ChatWindow_env where
  "env_reply_rejected = env_primary\<lparr>cloud := sb_reply_rejected\<rparr>"

section \<open>Facts about the mood-log merge\<close>

lemma findIndex_ge_minus1: "- 1 \<le> findIndex P xs"
  by (induction xs) (auto simp: Let_def)

lemma findIndex_neg_iff: "findIndex P xs < 0 \<longleftrightarrow> (\<forall>x \<in> set xs. \<not> P x)"
proof (induction xs)
  case Nil
  show ?case by simp
next
  case (Cons x xs)
  have "- 1 \<le> findIndex P xs" by (rule findIndex_ge_minus1)
  with Cons show ?case by (auto simp: Let_def)
qed

lemma findIndex_nonneg_iff: "0 \<le> findIndex P xs \<longleftrightarrow> (\<exists>x \<in> set xs. P x)"
  using findIndex_neg_iff [of P xs] by auto

lemma findIndex_found:
  "0 \<le> findIndex P xs \<Longrightarrow>
     nat (findIndex P xs) < length xs \<and> P (xs ! nat (findIndex P xs)) \<and>
     (\<forall>j < nat (findIndex P xs). \<not> P (xs ! j))"
proof (induction xs)
  case Nil
  then show ?case by simp
next
  case (Cons x xs)
  show ?case
  proof (cases "P x")
    case True
    then show ?thesis by simp
  next
    case False
    with Cons.prems have nn: "0 \<le> findIndex P xs"
      by (simp add: Let_def split: if_splits)
    from Cons.IH [OF nn] have ih:
      "nat (findIndex P xs) < length xs" "P (xs ! nat (findIndex P xs))"
      "\<forall>j < nat (findIndex P xs). \<not> P (xs ! j)" by auto
    from nn have idx: "nat (findIndex P (x # xs)) = Suc (nat (findIndex P xs))"
      using False by (simp add: Let_def nat_add_distrib)
    show ?thesis
      unfolding idx using ih False by (auto simp: less_Suc_eq_0_disj)
  qed
qed

lemma updater_length_found:
  "0 \<le> findIndex (\<lambda>l. date l = today) prev \<Longrightarrow>
     length (setMoodLogs_updater today e prev) = length prev"
  by (simp add: setMoodLogs_updater_def Let_def)

lemma updater_dates_found:
  assumes "0 \<le> findIndex (\<lambda>l. date l = today) prev" and "date e = today"
  shows "map date (setMoodLogs_updater today e prev) = map date prev"
proof -
  let ?i = "nat (findIndex (\<lambda>l. date l = today) prev)"
  from findIndex_found [OF assms(1)] have "?i < length prev" "date (prev ! ?i) = today"
    by auto
  then have "(map date prev)[?i := date e] = map date prev"
    using assms(2) by (simp add: list_update_same_conv)
  then show ?thesis
    using assms(1) by (simp add: setMoodLogs_updater_def Let_def map_update)
qed

lemma updater_not_found:
  "findIndex (\<lambda>l. date l = today) prev < 0 \<Longrightarrow>
     setMoodLogs_updater today e prev = prev @ [e]"
  by (simp add: setMoodLogs_updater_def Let_def)

lemma date_newEntry_of [simp]: "date (newEntry_of today m) = today"
  by (simp add: newEntry_of_def)

lemma moodLogs_handleMoodDetected:
  "moodLogs (fst (handleMoodDetected sb today m mode_v s)) =
     setMoodLogs_updater today (newEntry_of today m) (moodLogs s)"
  by (simp add: handleMoodDetected_def Let_def split: prod.splits sum.splits)

lemma updater_has_today:
  assumes "date e = today"
  shows "\<exists>l \<in> set (setMoodLogs_updater today e prev). date l = today"
proof (cases "0 \<le> findIndex (\<lambda>l. date l = today) prev")
  case True
  from findIndex_found [OF True]
  have "nat (findIndex (\<lambda>l. date l = today) prev) < length prev" by simp
  then have "e \<in> set (setMoodLogs_updater today e prev)"
    using True by (simp add: setMoodLogs_updater_def Let_def set_update_memI)
  with assms show ?thesis by blast
next
  case False
  then show ?thesis using assms by (simp add: setMoodLogs_updater_def Let_def)
qed

lemma updater_distinct_dates:
  assumes "distinct (map date prev)" and "date e = today"
  shows "distinct (map date (setMoodLogs_updater today e prev))"
proof (cases "0 \<le> findIndex (\<lambda>l. date l = today) prev")
  case True
  then show ?thesis using assms by (simp add: updater_dates_found)
next
  case False
  then have neg: "findIndex (\<lambda>l. date l = today) prev < 0" by simp
  then have "today \<notin> date ` set prev"
    by (auto simp: findIndex_neg_iff)
  then show ?thesis
    using assms neg by (simp add: updater_not_found)
qed

lemma split_comma_user_id_date: "split_comma ''user_id,date'' = [''user_id'', ''date'']"
  by simp

lemma conflict_user_id_date:
  "conflict [''user_id'', ''date''] x r \<longleftrightarrow> row_key x = row_key r"
  by (auto simp: conflict_def column_def row_key_def)

lemma upsert_onConflict_keys:
  "set (map row_key (upsert_onConflict [''user_id'', ''date''] r xs)) =
     insert (row_key r) (set (map row_key xs))"
  by (induction xs) (auto simp: conflict_user_id_date)

lemma upsert_onConflict_distinct:
  "distinct (map row_key xs) \<Longrightarrow>
     distinct (map row_key (upsert_onConflict [''user_id'', ''date''] r xs))"
proof (induction xs)
  case Nil
  show ?case by simp
next
  case (Cons x xs)
  show ?case
  proof (cases "row_key x = row_key r")
    case True
    with Cons.prems show ?thesis by (simp add: conflict_user_id_date)
  next
    case False
    from Cons have "distinct (map row_key (upsert_onConflict [''user_id'', ''date''] r xs))"
      by simp
    moreover have "row_key x \<notin> set (map row_key (upsert_onConflict [''user_id'', ''date''] r xs))"
      using Cons.prems False unfolding upsert_onConflict_keys by auto
    ultimately show ?thesis using False by (simp add: conflict_user_id_date)
  qed
qed

lemma upsert_onConflict_stores:
  "r \<in> set (upsert_onConflict cols r xs)"
  by (induction xs) auto

text \<open>The backend calls of \<^verbatim>\<open>handleMoodDetected\<close>, in full.\<close>

lemma backend_calls_handleMoodDetected:
  "backend_calls (snd (handleMoodDetected sb today m mode_v s)) =
     (if isGuest s then []
      else case auth_getUser sb of
             None \<Rightarrow> [Auth_getUser]
           | Some uid \<Rightarrow>
               [Auth_getUser,
                MoodLogs_upsert
                  \<lparr>row_user_id = uid, row_date = today, row_mood = dominant_mood m,
                   row_energy = energy_level m, row_score = score (newEntry_of today m)\<rparr>
                  ''user_id,date''])"
  by (simp add: handleMoodDetected_def saveMoodEntry_def Let_def newEntry_of_def
        split: option.splits)

lemma apply_calls_handleMoodDetected_distinct:
  assumes "distinct (map row_key table)"
  shows "distinct (map row_key
           (apply_calls sb (backend_calls (snd (handleMoodDetected sb today m mode_v s))) table))"
  unfolding backend_calls_handleMoodDetected
  using assms
  by (simp add: apply_calls_def split_comma_user_id_date upsert_onConflict_distinct
        split: option.splits)

lemma handleMoodDetected_guest_effects:
  "isGuest s \<Longrightarrow> snd (handleMoodDetected sb today m mode_v s) = []"
  by (simp add: handleMoodDetected_def Let_def)

text \<open>
  A failed \<^verbatim>\<open>saveMoodEntry\<close> changes nothing but the console: the state is the one a
  successful save leaves, and the error is the last effect.
\<close>

lemma handleMoodDetected_save_failure:
  assumes "\<not> isGuest s" and "auth_getUser sb = Some uid"
    and "mood_logs_upsert sb
           \<lparr>row_user_id = uid, row_date = today, row_mood = dominant_mood m,
            row_energy = energy_level m, row_score = score (newEntry_of today m)\<rparr> = Some error"
  shows "fst (handleMoodDetected sb today m mode_v s) =
           s\<lparr>currentMood := Some m, supportMode := mode_v,
             moodLogs := setMoodLogs_updater today (newEntry_of today m) (moodLogs s)\<rparr>
         \<and> last (snd (handleMoodDetected sb today m mode_v s)) = Console_error error"
  using assms
  by (simp add: handleMoodDetected_def saveMoodEntry_def Let_def newEntry_of_def)

section \<open>Facts about the adapters\<close>

lemma and_then_Inr_iff:
  "and_then r f = Inr y \<longleftrightarrow> (\<exists>x. r = Inr x \<and> f x = Inr y)"
  by (cases r) (simp_all add: and_then_def)

lemma and_then_Inr [simp]: "and_then (Inr x) f = f x"
  by (simp add: and_then_def)

lemma and_then_Inl [simp]: "and_then (Inl e) f = Inl e"
  by (simp add: and_then_def)

lemma js_get_after_set:
  "js_set v k x = Inr v' \<Longrightarrow> js_get v' k = Inr x"
  by (cases v) (auto simp: update_conv')

text \<open>Gemini path: a returned mood state carries a listed mood.\<close>

lemma analyzeMultimodalMood_mood_listed:
  assumes "analyzeMultimodalMood JSON_parse reply = Inr result"
  shows "\<exists>dm. js_get (mood_state result) ''dominant_mood'' = Inr dm \<and> ALLOWED_MOODS_includes dm"
proof -
  from assms have tr: "analyzeMultimodalMood_try JSON_parse reply = Inr result"
    by (simp add: analyzeMultimodalMood_def split: sum.splits)
  then obtain ms dm ms' where ms: "js_get ms ''dominant_mood'' = Inr dm"
    and ms': "(if \<not> ALLOWED_MOODS_includes dm
               then js_set ms ''dominant_mood'' (JStr ''Neutral'') else Inr ms) = Inr ms'"
    and res: "mood_state result = ms'"
    unfolding analyzeMultimodalMood_try_def and_then_Inr_iff by auto
  show ?thesis
  proof (cases "ALLOWED_MOODS_includes dm")
    case True
    with ms ms' res show ?thesis by auto
  next
    case False
    with ms' have "js_set ms ''dominant_mood'' (JStr ''Neutral'') = Inr ms'" by simp
    then have "js_get ms' ''dominant_mood'' = Inr (JStr ''Neutral'')"
      by (rule js_get_after_set)
    moreover have "ALLOWED_MOODS_includes (JStr ''Neutral'')"
      by (simp add: ALLOWED_MOODS_def)
    ultimately show ?thesis using res by auto
  qed
qed

text \<open>Gemini path: an unlisted mood of a returned result has become Neutral.\<close>

lemma analyzeMultimodalMood_coerces_mood:
  assumes "analyzeMultimodalMood JSON_parse (Inr t) = Inr result"
    and "JSON_parse (JStr (case t of None \<Rightarrow> ''{}'' | Some x \<Rightarrow> if x = [] then ''{}'' else x)) = Some data"
    and "js_get data ''mood_state'' = Inr ms" and "js_get ms ''dominant_mood'' = Inr dm"
    and "\<not> ALLOWED_MOODS_includes dm"
  shows "js_get (mood_state result) ''dominant_mood'' = Inr (JStr ''Neutral'')"
proof -
  from assms(1) have tr: "analyzeMultimodalMood_try JSON_parse (Inr t) = Inr result"
    by (simp add: analyzeMultimodalMood_def split: sum.splits)
  with assms(2-5) obtain ms' where "js_set ms ''dominant_mood'' (JStr ''Neutral'') = Inr ms'"
    and "mood_state result = ms'"
    unfolding analyzeMultimodalMood_try_def by (auto simp: and_then_Inr_iff)
  then show ?thesis by (simp add: js_get_after_set)
qed

text \<open>OpenRouter path: the support mode is always one of the five members.\<close>

lemma coerceSupportMode_default:
  "coerceSupportMode v =
     (case v of
        JStr s \<Rightarrow>
          if toUpperCase s = ''CALMING'' then CALMING
          else if toUpperCase s = ''MOTIVATION'' then MOTIVATION
          else if toUpperCase s = ''STABILITY'' then STABILITY
          else if toUpperCase s = ''CRISIS_AWARE'' then CRISIS_AWARE
          else LISTENING
      | _ \<Rightarrow> LISTENING)"
  by (cases v) (simp_all add: coerceSupportMode_def)

lemma callOpenRouter_parse_safely_mode:
  "\<exists>m. mode (callOpenRouter_parse_safely JSON_parse content') = SupportMode_value m"
proof (cases "callOpenRouter_parse JSON_parse content'")
  case (Inl e)
  then have "mode (callOpenRouter_parse_safely JSON_parse content') = SupportMode_value LISTENING"
    by (simp add: callOpenRouter_parse_safely_def)
  then show ?thesis ..
next
  case (Inr result)
  then obtain sm where "mode result = SupportMode_value (coerceSupportMode sm)"
    unfolding callOpenRouter_parse_def
    by (auto simp: and_then_Inr_iff split: option.splits)
  with Inr have "mode (callOpenRouter_parse_safely JSON_parse content') =
      SupportMode_value (coerceSupportMode sm)"
    by (simp add: callOpenRouter_parse_safely_def)
  then show ?thesis ..
qed

lemma callOpenRouter_Inr_content:
  assumes "callOpenRouter JSON_parse key reply = Inr result"
  shows "\<exists>content'. result = callOpenRouter_parse_safely JSON_parse content'"
  using assms unfolding callOpenRouter_def
  by (auto simp: and_then_Inr_iff split: if_splits)

lemma callOpenRouter_mode_member:
  assumes "callOpenRouter JSON_parse key reply = Inr result"
  shows "\<exists>m. mode result = SupportMode_value m"
  using callOpenRouter_Inr_content [OF assms] callOpenRouter_parse_safely_mode by metis

text \<open>OpenRouter path: a parsed mood state is passed on as it is.\<close>

lemma callOpenRouter_parse_passes_mood:
  assumes "JSON_parse content' = Some parsed" and "js_get parsed ''mood_state'' = Inr ms"
  shows "\<exists>result. callOpenRouter_parse JSON_parse content' = Inr result \<and> mood_state result = ms"
proof -
  from assms(2) obtain sm msg where "js_get parsed ''support_mode'' = Inr sm"
    "js_get parsed ''message'' = Inr msg"
    by (cases parsed) auto
  with assms show ?thesis by (simp add: callOpenRouter_parse_def)
qed

section \<open>Facts about white space\<close>

lemma strip_leading_Nil [simp]: "strip_leading ws [] = []"
proof -
  have "find (\<lambda>w. w \<noteq> [] \<and> startsWith [] w) ws = None"
    by (auto simp: find_None_iff startsWith_def)
  then show ?thesis by (subst strip_leading.simps) simp
qed

lemma WhiteSpace_nonempty: "w \<in> set WhiteSpace \<Longrightarrow> w \<noteq> []"
  by (auto simp: WhiteSpace_def)

lemma WhiteSpace_prefix_free:
  "\<forall>v \<in> set WhiteSpace. \<forall>w \<in> set WhiteSpace. take (length v) w = v \<longrightarrow> v = w"
  by (simp add: WhiteSpace_def)

lemma prefixes_comparable:
  assumes "take (length v) (w @ s) = v"
  shows "take (length v) w = v \<or> take (length w) v = w"
proof (cases "length v \<le> length w")
  case True
  with assms show ?thesis by simp
next
  case False
  with assms have "w @ take (length v - length w) s = v" by simp
  then have "take (length w) v = w" by (metis append_eq_conv_conj)
  then show ?thesis ..
qed

lemma strip_leading_WhiteSpace_step:
  assumes "w \<in> set WhiteSpace"
  shows "strip_leading WhiteSpace (w @ s) = strip_leading WhiteSpace s"
proof -
  let ?P = "\<lambda>v. v \<noteq> [] \<and> startsWith (w @ s) v"
  from assms have "?P w" by (simp add: startsWith_def WhiteSpace_nonempty)
  with assms have "find ?P WhiteSpace \<noteq> None" by (auto simp: find_None_iff)
  then obtain v where v: "find ?P WhiteSpace = Some v" by blast
  then have "v \<in> set WhiteSpace" and "?P v"
    by (auto simp: find_Some_iff)
  then have "take (length v) (w @ s) = v" by (simp add: startsWith_def)
  then have "take (length v) w = v \<or> take (length w) v = w" by (rule prefixes_comparable)
  with WhiteSpace_prefix_free \<open>v \<in> set WhiteSpace\<close> assms have "v = w" by metis
  with v show ?thesis by (subst strip_leading.simps) simp
qed

text \<open>A string made of white-space characters only trims to the empty string.\<close>

lemma trim_only_whitespace:
  assumes "set ws \<subseteq> set WhiteSpace"
  shows "trim (concat ws) = []"
proof -
  from assms have "strip_leading WhiteSpace (concat ws) = []"
    by (induction ws) (simp_all add: strip_leading_WhiteSpace_step)
  then show ?thesis by (simp add: trim_def)
qed

section \<open>Facts about the chat handler\<close>

lemma backend_calls_append: "backend_calls (xs @ ys) = backend_calls xs @ backend_calls ys"
  by (induction xs rule: backend_calls.induct) simp_all

lemma backend_calls_map_Backend: "backend_calls (map Backend cs) = cs"
  by (induction cs) simp_all

lemma provider_calls_map_Backend: "filter is_provider_call (map Backend cs) = []"
  by (induction cs) simp_all

lemma OnMoodDetected_map_Backend: "filter is_OnMoodDetected (map Backend cs) = []"
  by (induction cs) simp_all

lemma provider_attempts_primary:
  "analyzeMultimodalMood_result env t (history_of msgs) = Inr data \<Longrightarrow>
     provider_attempts env t msgs = ([Call_analyzeMultimodalMood t (history_of msgs)], Inr data)"
  by (simp add: provider_attempts_def)

lemma provider_attempts_fallback:
  "analyzeMultimodalMood_result env t (history_of msgs) = Inl geminiError \<Longrightarrow>
     provider_attempts env t msgs =
       ([Call_analyzeMultimodalMood t (history_of msgs), Console_warn geminiError,
         Call_callOpenRouter (history_of msgs @ [(User, JStr t)])],
        callOpenRouter_result env (history_of msgs @ [(User, JStr t)]))"
  by (simp add: provider_attempts_def Let_def)

lemma provider_attempts_no_backend:
  "backend_calls (fst (provider_attempts env t msgs)) = []"
  by (simp add: provider_attempts_def Let_def split: sum.splits)

text \<open>
  After the provider attempts, the rest of the \<^verbatim>\<open>try\<close> calls no provider, and it calls
  the backend only when the conversation is persisted.
\<close>

lemma handleSend_try_effects:
  "\<exists>post. snd (handleSend_try env t msgs c s) = fst (provider_attempts env t msgs) @ post \<and>
          filter is_provider_call post = [] \<and>
          (\<not> persists env c \<longrightarrow> backend_calls post = [])"
proof (cases "provider_attempts env t msgs")
  case (Pair es r)
  show ?thesis
  proof (cases r)
    case (Inl error)
    with Pair show ?thesis
      by (simp add: handleSend_try_def handleSend_catch_def)
  next
    case (Inr data)
    show ?thesis
    proof (cases "truthy (response data)")
      case False
      with Pair Inr show ?thesis
        by (simp add: handleSend_try_def handleSend_catch_def)
    next
      case True
      obtain calls saved where sv: "save_if_persisting env (assistantMsg_of env data) c = (calls, saved)"
        by (cases "save_if_persisting env (assistantMsg_of env data) c")
      then have guest: "\<not> persists env c \<longrightarrow> calls = []"
        by (auto simp: save_if_persisting_def)
      show ?thesis
        using Pair Inr True sv guest
        by (cases saved)
           (simp_all add: handleSend_try_def handleSend_catch_def Let_def
              provider_calls_map_Backend backend_calls_append backend_calls_map_Backend)
    qed
  qed
qed

lemma handleSend_sending:
  assumes "activeConvId s = Some c" and "c \<noteq> []" and "trim (inputText s) \<noteq> []"
    and "\<not> isTyping s"
    and "save_if_persisting env (userMsg_of env (inputText s)) c = (calls, Inr u)"
  shows "handleSend env s =
           (fst (handleSend_try env (inputText s) (messages s) c
                   (s\<lparr>messages := messages s @ [userMsg_of env (inputText s)],
                      inputText := [], isTyping := True\<rparr>))\<lparr>isTyping := False\<rparr>,
            map Backend calls @
              snd (handleSend_try env (inputText s) (messages s) c
                     (s\<lparr>messages := messages s @ [userMsg_of env (inputText s)],
                        inputText := [], isTyping := True\<rparr>)),
            None)"
  using assms by (simp add: handleSend_def Let_def split: prod.splits)

lemma handleSend_guest_no_backend:
  assumes "localStorage_getItem env ''md_is_guest'' = Some ''true''"
  shows "backend_calls (fst (snd (handleSend env s))) = []"
proof (cases "activeConvId s")
  case None
  then show ?thesis by (simp add: handleSend_def)
next
  case (Some c)
  show ?thesis
  proof (cases "trim (inputText s) = [] \<or> isTyping s \<or> c = []")
    case True
    with Some show ?thesis by (auto simp: handleSend_def)
  next
    case False
    from assms have np: "\<not> persists env c" by (simp add: persists_def)
    then have sv: "save_if_persisting env (userMsg_of env (inputText s)) c = ([], Inr ())"
      by (simp add: save_if_persisting_def)
    let ?s1 = "s\<lparr>messages := messages s @ [userMsg_of env (inputText s)],
                      inputText := [], isTyping := True\<rparr>"
    from handleSend_try_effects [of env "inputText s" "messages s" c ?s1] np
    obtain post where "snd (handleSend_try env (inputText s) (messages s) c ?s1) =
        fst (provider_attempts env (inputText s) (messages s)) @ post" "backend_calls post = []"
      by blast
    then have "backend_calls (snd (handleSend_try env (inputText s) (messages s) c ?s1)) = []"
      by (simp add: backend_calls_append provider_attempts_no_backend)
    moreover from False Some sv have "handleSend env s =
        (fst (handleSend_try env (inputText s) (messages s) c ?s1)\<lparr>isTyping := False\<rparr>,
         map Backend [] @ snd (handleSend_try env (inputText s) (messages s) c ?s1), None)"
      by (intro handleSend_sending) auto
    ultimately show ?thesis by simp
  qed
qed

text \<open>Without a signed-in user a new chat gets a temporary id, whatever the later selects answer.\<close>

lemma startNewChat_unauthorized:
  "auth_getUser (cloud env) = None \<Longrightarrow>
     startNewChat env selects closure_activeConvId s =
       Some (s\<lparr>activeConvId := Some (''temp-'' @ toString_nat (now_newChat env)), messages := []\<rparr>,
             [Backend Auth_getUser])"
  by (simp add: createConversation_def)

section \<open>Facts about the example data\<close>

text \<open>Scores as the engine computes them: 57.49999999999999 rounds to 57.\<close>

lemma score_examples:
  "score (newEntry_of ''2026-03-03'' mood_calm) = 90"
  "score (newEntry_of ''2026-03-03'' mood_low) = 30"
  "score (newEntry_of ''2026-03-03'' (mood_low\<lparr>risk_score := 425 / 1000\<rparr>)) = 57"
  "to_double (1 / 10) = 3602879701896397 / 36028797018963968"
  by code_simp+

lemma trim_examples:
  "trim [] = []" "trim ''   '' = []" "trim blank_input = []"
  "trim ''I feel stuck'' = ''I feel stuck''"
  by code_simp+

lemma chat_ready_sending:
  "activeConvId chat_ready = Some ''c1''" "''c1'' \<noteq> []" "trim (inputText chat_ready) \<noteq> []"
  "\<not> isTyping chat_ready"
  by (simp_all add: chat_ready_def trim_examples)

lemma chat_ready_history:
  "history_of (messages chat_ready) = [(Assistant, JStr ''How are you today?'')]"
  by (simp add: history_of_def slice_last_def chat_ready_def earlier_msg_def)

lemma sb_ok_saves:
  "cloud env = sb_ok \<Longrightarrow> snd (save_if_persisting env msg c) = Inr ()"
  by (simp add: save_if_persisting_def saveMessage_def sb_ok_def Let_def)

lemma example_envs [simp]:
  "cloud env_both_fail = sb_ok" "cloud env_fallback = sb_ok" "cloud env_primary = sb_ok"
  "cloud env_guest = sb_anonymous" "cloud env_db_down = sb_down"
  "cloud env_reply_rejected = sb_reply_rejected"
  "analyzeMultimodalMood_result env_both_fail = (\<lambda>t h. Inl gemini_failure)"
  "analyzeMultimodalMood_result env_fallback = (\<lambda>t h. Inl gemini_failure)"
  "analyzeMultimodalMood_result env_primary = (\<lambda>t h. Inr reply_ok)"
  "analyzeMultimodalMood_result env_guest = (\<lambda>t h. Inr reply_ok)"
  "analyzeMultimodalMood_result env_db_down = (\<lambda>t h. Inr reply_ok)"
  "analyzeMultimodalMood_result env_reply_rejected = (\<lambda>t h. Inr reply_ok)"
  "callOpenRouter_result env_both_fail = (\<lambda>h. Inl provider_down)"
  "callOpenRouter_result env_fallback = (\<lambda>h. Inr reply_ok)"
  "localStorage_getItem env_both_fail = (\<lambda>k. None)"
  "localStorage_getItem env_fallback = (\<lambda>k. None)"
  "localStorage_getItem env_primary = (\<lambda>k. None)"
  "localStorage_getItem env_db_down = (\<lambda>k. None)"
  "localStorage_getItem env_reply_rejected = (\<lambda>k. None)"
  "localStorage_getItem env_guest = (\<lambda>k. if k = ''md_is_guest'' then Some ''true'' else None)"
  by (simp_all add: env_both_fail_def env_fallback_def env_primary_def env_guest_def
        env_db_down_def env_reply_rejected_def)

lemma toUpperCase_examples:
  "toUpperCase ''banana'' = ''BANANA''" "toUpperCase ''calming'' = ''CALMING''"
  by code_simp+

lemma sample_texts_differ:
  "text_off_list_mode \<noteq> []" "text_off_list_mood \<noteq> []" "text_not_json \<noteq> []"
  "text_off_list_mood \<noteq> text_off_list_mode" "text_not_json \<noteq> text_off_list_mode"
  "text_not_json \<noteq> text_off_list_mood"
  by (simp_all add: text_off_list_mode_def text_off_list_mood_def text_not_json_def)

lemma JSON_parse_sample_values:
  "JSON_parse_sample (JStr text_off_list_mode) = Some value_off_list_mode"
  "JSON_parse_sample (JStr text_off_list_mood) = Some value_off_list_mood"
  "JSON_parse_sample (JStr text_not_json) = None"
  by (simp_all add: JSON_parse_sample_def sample_texts_differ)

lemma completion_content:
  "choices0_message_content
     (JObj [(''choices'',
        JArr [JObj [(''message'',
                JObj [(''role'', JStr ''assistant''), (''content'', JStr text)])]] [])]) =
   Inr (JStr text)"
  by (simp add: choices0_message_content_def)

section \<open>Provider failover (handleSend)\<close>

text \<open>
  C1. Take a run of \<^verbatim>\<open>handleSend\<close> that passes its guard and whose first \<^verbatim>\<open>saveMessage\<close>
  (if any) does not throw. The history that the providers get is role and content of the
  last five messages of the transcript. If Provider A throws, the provider calls of the run
  are exactly: A with the user text and that history, then B once with that history followed
  by the user text; and up to B's call the run has done nothing but the first save, A's
  call and the warning that logs A's error. If Provider A returns, A's call is the only
  provider call. The calls are steps of one sequence: B's call comes after A's error.
\<close>

theorem handleSend_failover:
  assumes "activeConvId s = Some c" and "c \<noteq> []" and "trim (inputText s) \<noteq> []"
    and "\<not> isTyping s"
    and "snd (save_if_persisting env (userMsg_of env (inputText s)) c) = Inr ()"
  shows "history_of (messages s) =
           map (\<lambda>m. (role m, content m)) (drop (length (messages s) - 5) (messages s))
       \<and> filter is_provider_call (fst (snd (handleSend env s))) =
           (case analyzeMultimodalMood_result env (inputText s) (history_of (messages s)) of
              Inl geminiError \<Rightarrow>
                [Call_analyzeMultimodalMood (inputText s) (history_of (messages s)),
                 Call_callOpenRouter (history_of (messages s) @ [(User, JStr (inputText s))])]
            | Inr data \<Rightarrow>
                [Call_analyzeMultimodalMood (inputText s) (history_of (messages s))])
       \<and> (\<forall>geminiError.
             analyzeMultimodalMood_result env (inputText s) (history_of (messages s)) = Inl geminiError
             \<longrightarrow> (\<exists>post. fst (snd (handleSend env s)) =
                     map Backend (fst (save_if_persisting env (userMsg_of env (inputText s)) c)) @
                     [Call_analyzeMultimodalMood (inputText s) (history_of (messages s)),
                      Console_warn geminiError,
                      Call_callOpenRouter (history_of (messages s) @ [(User, JStr (inputText s))])] @
                     post))"
proof -
  let ?t = "inputText s"
  let ?s1 = "s\<lparr>messages := messages s @ [userMsg_of env ?t], inputText := [], isTyping := True\<rparr>"
  let ?calls = "fst (save_if_persisting env (userMsg_of env ?t) c)"
  let ?run = "handleSend_try env ?t (messages s) c ?s1"
  from assms(5) have sv: "save_if_persisting env (userMsg_of env ?t) c = (?calls, Inr ())"
    by (cases "save_if_persisting env (userMsg_of env ?t) c") simp
  have eff: "fst (snd (handleSend env s)) = map Backend ?calls @ snd ?run"
    using handleSend_sending [OF assms(1-4) sv] by simp
  from handleSend_try_effects [of env ?t "messages s" c ?s1]
  obtain post where post: "snd ?run = fst (provider_attempts env ?t (messages s)) @ post"
    and nop: "filter is_provider_call post = []"
    by blast
  have hist: "history_of (messages s) =
      map (\<lambda>m. (role m, content m)) (drop (length (messages s) - 5) (messages s))"
    by (simp add: history_of_def slice_last_def)
  show ?thesis
  proof (cases "analyzeMultimodalMood_result env ?t (history_of (messages s))")
    case (Inl geminiError)
    from provider_attempts_fallback [OF Inl]
    have pa: "fst (provider_attempts env ?t (messages s)) =
        [Call_analyzeMultimodalMood ?t (history_of (messages s)), Console_warn geminiError,
         Call_callOpenRouter (history_of (messages s) @ [(User, JStr ?t)])]"
      by simp
    have "filter is_provider_call (fst (snd (handleSend env s))) =
        [Call_analyzeMultimodalMood ?t (history_of (messages s)),
         Call_callOpenRouter (history_of (messages s) @ [(User, JStr ?t)])]"
      unfolding eff post pa by (simp add: provider_calls_map_Backend nop)
    moreover have "fst (snd (handleSend env s)) = map Backend ?calls @
        [Call_analyzeMultimodalMood ?t (history_of (messages s)), Console_warn geminiError,
         Call_callOpenRouter (history_of (messages s) @ [(User, JStr ?t)])] @ post"
      unfolding eff post pa by simp
    ultimately show ?thesis using Inl hist by auto
  next
    case (Inr data)
    from provider_attempts_primary [OF Inr]
    have pa: "fst (provider_attempts env ?t (messages s)) =
        [Call_analyzeMultimodalMood ?t (history_of (messages s))]"
      by simp
    have "filter is_provider_call (fst (snd (handleSend env s))) =
        [Call_analyzeMultimodalMood ?t (history_of (messages s))]"
      unfolding eff post pa by (simp add: provider_calls_map_Backend nop)
    then show ?thesis using Inr hist by simp
  qed
qed

text \<open>
  Witness for C1: the same message sent once where Provider A throws and B answers, and
  once where A answers.
\<close>

theorem handleSend_failover_witness:
  "activeConvId chat_ready = Some ''c1'' \<and> trim (inputText chat_ready) \<noteq> [] \<and>
   \<not> isTyping chat_ready \<and>
   snd (save_if_persisting env_fallback (userMsg_of env_fallback (inputText chat_ready)) ''c1'') = Inr () \<and>
   analyzeMultimodalMood_result env_fallback ''I feel stuck'' [(Assistant, JStr ''How are you today?'')] =
     Inl gemini_failure \<and>
   filter is_provider_call (fst (snd (handleSend env_fallback chat_ready))) =
     [Call_analyzeMultimodalMood ''I feel stuck'' [(Assistant, JStr ''How are you today?'')],
      Call_callOpenRouter [(Assistant, JStr ''How are you today?''), (User, JStr ''I feel stuck'')]] \<and>
   analyzeMultimodalMood_result env_primary ''I feel stuck'' [(Assistant, JStr ''How are you today?'')] =
     Inr reply_ok \<and>
   filter is_provider_call (fst (snd (handleSend env_primary chat_ready))) =
     [Call_analyzeMultimodalMood ''I feel stuck'' [(Assistant, JStr ''How are you today?'')]]"
proof -
  have inp: "inputText chat_ready = ''I feel stuck''" by (simp add: chat_ready_def)
  have sv1: "snd (save_if_persisting env_fallback (userMsg_of env_fallback (inputText chat_ready)) ''c1'') = Inr ()"
    by (rule sb_ok_saves) simp
  have sv2: "snd (save_if_persisting env_primary (userMsg_of env_primary (inputText chat_ready)) ''c1'') = Inr ()"
    by (rule sb_ok_saves) simp
  from handleSend_failover [OF chat_ready_sending sv1]
  have "filter is_provider_call (fst (snd (handleSend env_fallback chat_ready))) =
     [Call_analyzeMultimodalMood ''I feel stuck'' [(Assistant, JStr ''How are you today?'')],
      Call_callOpenRouter [(Assistant, JStr ''How are you today?''), (User, JStr ''I feel stuck'')]]"
    by (simp add: chat_ready_history inp)
  moreover from handleSend_failover [OF chat_ready_sending sv2]
  have "filter is_provider_call (fst (snd (handleSend env_primary chat_ready))) =
     [Call_analyzeMultimodalMood ''I feel stuck'' [(Assistant, JStr ''How are you today?'')]]"
    by (simp add: chat_ready_history inp)
  ultimately show ?thesis using chat_ready_sending sv1 by simp
qed

text \<open>
  C6. When Provider A and then Provider B throw, \<^verbatim>\<open>handleSend\<close> ends with the user message
  and one error message appended to the transcript, the input cleared and the typing flag
  off. The error message is an assistant message whose text is the fixed apology around the
  message of B's error (\<^verbatim>\<open>Unknown error\<close> when that is empty). The handler has called each
  provider once, has logged the error, and has not called \<^verbatim>\<open>onMoodDetected\<close>, the only way
  the current mood and support mode change.
\<close>

theorem handleSend_both_providers_fail:
  assumes "activeConvId s = Some c" and "c \<noteq> []" and "trim (inputText s) \<noteq> []"
    and "\<not> isTyping s"
    and "snd (save_if_persisting env (userMsg_of env (inputText s)) c) = Inr ()"
    and "analyzeMultimodalMood_result env (inputText s) (history_of (messages s)) = Inl geminiError"
    and "callOpenRouter_result env (history_of (messages s) @ [(User, JStr (inputText s))]) = Inl error"
  shows "handleSend env s =
           (s\<lparr>messages := messages s @
                [userMsg_of env (inputText s),
                 \<lparr>msg_id = toString_nat (now_errorMsg env + 1), role = Assistant,
                   content = JStr ([CHR 0xC3, CHR 0xA2, CHR 0xC5, CHR 0x92] @
                     '' Sorry, I encountered an error: '' @
                     (if message error = [] then ''Unknown error'' else message error) @
                     ''. Please check your API keys in .env and try again.''),
                   timestamp = now_errorMsg env, msg_mood_state = JUndefined,
                   msg_mode = None\<rparr>],
              inputText := [], isTyping := False\<rparr>,
            map Backend (fst (save_if_persisting env (userMsg_of env (inputText s)) c)) @
              [Call_analyzeMultimodalMood (inputText s) (history_of (messages s)),
               Console_warn geminiError,
               Call_callOpenRouter (history_of (messages s) @ [(User, JStr (inputText s))]),
               Console_error error, Console_error error],
            None)
       \<and> filter is_provider_call (fst (snd (handleSend env s))) =
           [Call_analyzeMultimodalMood (inputText s) (history_of (messages s)),
            Call_callOpenRouter (history_of (messages s) @ [(User, JStr (inputText s))])]
       \<and> filter is_OnMoodDetected (fst (snd (handleSend env s))) = []"
proof -
  let ?t = "inputText s"
  let ?s1 = "s\<lparr>messages := messages s @ [userMsg_of env ?t], inputText := [], isTyping := True\<rparr>"
  let ?calls = "fst (save_if_persisting env (userMsg_of env ?t) c)"
  from assms(5) have sv: "save_if_persisting env (userMsg_of env ?t) c = (?calls, Inr ())"
    by (cases "save_if_persisting env (userMsg_of env ?t) c") simp
  have pa: "provider_attempts env ?t (messages s) =
      ([Call_analyzeMultimodalMood ?t (history_of (messages s)), Console_warn geminiError,
        Call_callOpenRouter (history_of (messages s) @ [(User, JStr ?t)])], Inl error)"
    using provider_attempts_fallback [OF assms(6)] assms(7) by simp
  have tr: "handleSend_try env ?t (messages s) c ?s1 =
      (?s1\<lparr>messages := messages ?s1 @ [errorMsg_of env error]\<rparr>,
       [Call_analyzeMultimodalMood ?t (history_of (messages s)), Console_warn geminiError,
        Call_callOpenRouter (history_of (messages s) @ [(User, JStr ?t)]),
        Console_error error, Console_error error])"
    by (simp add: handleSend_try_def pa handleSend_catch_def)
  have eq: "handleSend env s =
           (s\<lparr>messages := messages s @ [userMsg_of env ?t, errorMsg_of env error],
              inputText := [], isTyping := False\<rparr>,
            map Backend ?calls @
              [Call_analyzeMultimodalMood ?t (history_of (messages s)),
               Console_warn geminiError,
               Call_callOpenRouter (history_of (messages s) @ [(User, JStr ?t)]),
               Console_error error, Console_error error],
            None)"
    using handleSend_sending [OF assms(1-4) sv] unfolding tr by simp
  show ?thesis
    unfolding eq
    by (simp add: provider_calls_map_Backend OnMoodDetected_map_Backend errorMsg_of_def)
qed

text \<open>
  Witness for C6: both providers down for a message in a persisted conversation.
\<close>

theorem handleSend_both_providers_fail_witness:
  "activeConvId chat_ready = Some ''c1'' \<and> trim (inputText chat_ready) \<noteq> [] \<and>
   \<not> isTyping chat_ready \<and>
   snd (save_if_persisting env_both_fail (userMsg_of env_both_fail (inputText chat_ready)) ''c1'') = Inr () \<and>
   analyzeMultimodalMood_result env_both_fail ''I feel stuck'' [(Assistant, JStr ''How are you today?'')] =
     Inl gemini_failure \<and>
   callOpenRouter_result env_both_fail
     [(Assistant, JStr ''How are you today?''), (User, JStr ''I feel stuck'')] = Inl provider_down \<and>
   messages (fst (handleSend env_both_fail chat_ready)) =
     [earlier_msg, userMsg_of env_both_fail ''I feel stuck'',
      \<lparr>msg_id = toString_nat 1700000003001, role = Assistant,
       content = JStr ([CHR 0xC3, CHR 0xA2, CHR 0xC5, CHR 0x92] @
         '' Sorry, I encountered an error: provider unavailable. Please check your API keys in .env and try again.''),
       timestamp = 1700000003000, msg_mood_state = JUndefined, msg_mode = None\<rparr>] \<and>
   filter is_provider_call (fst (snd (handleSend env_both_fail chat_ready))) =
     [Call_analyzeMultimodalMood ''I feel stuck'' [(Assistant, JStr ''How are you today?'')],
      Call_callOpenRouter [(Assistant, JStr ''How are you today?''), (User, JStr ''I feel stuck'')]] \<and>
   filter is_OnMoodDetected (fst (snd (handleSend env_both_fail chat_ready))) = []"
proof -
  have inp: "inputText chat_ready = ''I feel stuck''" by (simp add: chat_ready_def)
  have msgs: "messages chat_ready = [earlier_msg]" by (simp add: chat_ready_def)
  have sv: "snd (save_if_persisting env_both_fail (userMsg_of env_both_fail (inputText chat_ready)) ''c1'') = Inr ()"
    by (rule sb_ok_saves) simp
  have a: "analyzeMultimodalMood_result env_both_fail (inputText chat_ready)
             (history_of (messages chat_ready)) = Inl gemini_failure" by simp
  have b: "callOpenRouter_result env_both_fail
             (history_of (messages chat_ready) @ [(User, JStr (inputText chat_ready))]) = Inl provider_down"
    by simp
  have hist: "history_of [earlier_msg] = [(Assistant, JStr ''How are you today?'')]"
    using chat_ready_history by (simp add: msgs)
  have err: "message provider_down = ''provider unavailable''"
    by (simp add: provider_down_def)
  have clock: "now_errorMsg env_both_fail = 1700000003000"
    by (simp add: env_both_fail_def)
  from handleSend_both_providers_fail [OF chat_ready_sending sv a b]
  show ?thesis using chat_ready_sending sv
    by (simp add: hist inp msgs err clock)
qed

text \<open>
  C10. If the input is empty or white space only (\<^verbatim>\<open>trim\<close> leaves nothing of it), or a
  reply is pending, or there is no active conversation id (\<^verbatim>\<open>null\<close> or the empty string),
  \<^verbatim>\<open>handleSend\<close> returns with the state unchanged and no effect: no provider call, no
  backend call, no message appended. White space is all that \<^verbatim>\<open>trim\<close> strips, ASCII or
  not: every string made of such characters trims to nothing (\<open>trim_only_whitespace\<close>).
\<close>

theorem handleSend_guard_no_effect:
  assumes "trim (inputText s) = [] \<or> isTyping s \<or> activeConvId s = None \<or> activeConvId s = Some []"
  shows "handleSend env s = (s, [], None)"
  using assms by (auto simp: handleSend_def split: option.splits)

text \<open>
  Witness for C10: an empty input, an input of ASCII blanks, an input of a no-break space, a
  blank, an ideographic space and a line feed, a pending reply, and no active conversation.
\<close>

theorem handleSend_guard_no_effect_witness:
  "trim (inputText (chat_ready\<lparr>inputText := []\<rparr>)) = [] \<and>
   handleSend env_primary (chat_ready\<lparr>inputText := []\<rparr>) =
     (chat_ready\<lparr>inputText := []\<rparr>, [], None) \<and>
   trim (inputText (chat_ready\<lparr>inputText := ''   ''\<rparr>)) = [] \<and>
   handleSend env_primary (chat_ready\<lparr>inputText := ''   ''\<rparr>) =
     (chat_ready\<lparr>inputText := ''   ''\<rparr>, [], None) \<and>
   trim (inputText (chat_ready\<lparr>inputText := blank_input\<rparr>)) = [] \<and>
   handleSend env_primary (chat_ready\<lparr>inputText := blank_input\<rparr>) =
     (chat_ready\<lparr>inputText := blank_input\<rparr>, [], None) \<and>
   isTyping (chat_ready\<lparr>isTyping := True\<rparr>) \<and>
   handleSend env_primary (chat_ready\<lparr>isTyping := True\<rparr>) =
     (chat_ready\<lparr>isTyping := True\<rparr>, [], None) \<and>
   activeConvId chat_mounting = None \<and>
   handleSend env_primary chat_mounting = (chat_mounting, [], None)"
proof -
  have h0: "trim (inputText (chat_ready\<lparr>inputText := []\<rparr>)) = []"
    by (simp add: trim_examples)
  have h1: "trim (inputText (chat_ready\<lparr>inputText := ''   ''\<rparr>)) = []"
    by (simp add: trim_examples)
  have h1': "trim (inputText (chat_ready\<lparr>inputText := blank_input\<rparr>)) = []"
    by (simp add: trim_examples)
  have h2: "isTyping (chat_ready\<lparr>isTyping := True\<rparr>)" by simp
  have h3: "activeConvId chat_mounting = None" by (simp add: chat_mounting_def)
  from h0 have "handleSend env_primary (chat_ready\<lparr>inputText := []\<rparr>) =
     (chat_ready\<lparr>inputText := []\<rparr>, [], None)"
    by (intro handleSend_guard_no_effect) simp
  moreover from h1 have "handleSend env_primary (chat_ready\<lparr>inputText := ''   ''\<rparr>) =
     (chat_ready\<lparr>inputText := ''   ''\<rparr>, [], None)"
    by (intro handleSend_guard_no_effect) simp
  moreover from h1' have "handleSend env_primary (chat_ready\<lparr>inputText := blank_input\<rparr>) =
     (chat_ready\<lparr>inputText := blank_input\<rparr>, [], None)"
    by (intro handleSend_guard_no_effect) simp
  moreover from h2 have "handleSend env_primary (chat_ready\<lparr>isTyping := True\<rparr>) =
     (chat_ready\<lparr>isTyping := True\<rparr>, [], None)"
    by (intro handleSend_guard_no_effect) simp
  moreover from h3 have "handleSend env_primary chat_mounting = (chat_mounting, [], None)"
    by (intro handleSend_guard_no_effect) simp
  ultimately show ?thesis using h0 h1 h1' h2 h3 by simp
qed

section \<open>Response normalisation (the two adapters)\<close>

text \<open>
  C3. The OpenRouter path does not coerce the mood: for a chat completion whose content is
  a JSON document with \<^verbatim>\<open>dominant_mood\<close> = \<^verbatim>\<open>Ecstatic\<close>, which is not in
  \<^verbatim>\<open>ALLOWED_MOODS\<close>, \<^verbatim>\<open>callOpenRouter\<close> returns the mood state as it came. (On the Gemini
  path a returned mood is always a listed one: \<open>analyzeMultimodalMood_mood_listed\<close>.)
\<close>

theorem callOpenRouter_passes_unlisted_mood:
  "callOpenRouter JSON_parse_sample (Some ''sk-test'') (Inr (completion_with text_off_list_mood)) =
     Inr \<lparr>mood_state = mood_state_ecstatic, mode = ''CALMING'',
          response = JStr ''That sounds wonderful.''\<rparr>
   \<and> js_get mood_state_ecstatic ''dominant_mood'' = Inr (JStr ''Ecstatic'')
   \<and> \<not> ALLOWED_MOODS_includes (JStr ''Ecstatic'')"
proof -
  have "callOpenRouter_parse JSON_parse_sample (JStr text_off_list_mood) =
      Inr \<lparr>mood_state = mood_state_ecstatic, mode = ''CALMING'',
           response = JStr ''That sounds wonderful.''\<rparr>"
    by (simp add: callOpenRouter_parse_def JSON_parse_sample_values value_off_list_mood_def
          coerceSupportMode_def toUpperCase_examples)
  then have "callOpenRouter JSON_parse_sample (Some ''sk-test'') (Inr (completion_with text_off_list_mood)) =
     Inr \<lparr>mood_state = mood_state_ecstatic, mode = ''CALMING'',
          response = JStr ''That sounds wonderful.''\<rparr>"
    by (simp add: callOpenRouter_def completion_with_def completion_content
          callOpenRouter_parse_safely_def)
  moreover have "js_get mood_state_ecstatic ''dominant_mood'' = Inr (JStr ''Ecstatic'')"
    by (simp add: mood_state_ecstatic_def)
  moreover have "\<not> ALLOWED_MOODS_includes (JStr ''Ecstatic'')"
    by (simp add: ALLOWED_MOODS_def)
  ultimately show ?thesis by simp
qed

text \<open>
  C7. The Gemini path does not coerce the support mode: for a response whose
  \<^verbatim>\<open>support_mode\<close> is \<^verbatim>\<open>banana\<close>, \<^verbatim>\<open>analyzeMultimodalMood\<close> returns the mode
  \<^verbatim>\<open>BANANA\<close>, which is no member of \<^verbatim>\<open>SupportMode\<close>. (On the OpenRouter path the mode
  is always a member: \<open>callOpenRouter_mode_member\<close>.)
\<close>

theorem analyzeMultimodalMood_passes_unlisted_mode:
  "analyzeMultimodalMood JSON_parse_sample (Inr (Some text_off_list_mode)) =
     Inr \<lparr>mood_state =
            JObj [(''dominant_mood'', JStr ''Happy''), (''energy_level'', JStr ''high''),
                  (''stability'', JStr ''stable''), (''risk_score'', JNum (1 / 10))],
          mode = ''BANANA'', response = JStr ''Glad to hear it.''\<rparr>
   \<and> ''BANANA'' \<notin> set (map SupportMode_value
                          [LISTENING, CALMING, MOTIVATION, STABILITY, CRISIS_AWARE])"
proof -
  have "analyzeMultimodalMood_try JSON_parse_sample (Inr (Some text_off_list_mode)) =
     Inr \<lparr>mood_state =
            JObj [(''dominant_mood'', JStr ''Happy''), (''energy_level'', JStr ''high''),
                  (''stability'', JStr ''stable''), (''risk_score'', JNum (1 / 10))],
          mode = ''BANANA'', response = JStr ''Glad to hear it.''\<rparr>"
    by (simp add: analyzeMultimodalMood_try_def JSON_parse_sample_values sample_texts_differ
          value_off_list_mode_def ALLOWED_MOODS_def toUpperCase_examples)
  then show ?thesis by (simp add: analyzeMultimodalMood_def)
qed

text \<open>
  C4, as amended. When the message content of a successful chat completion is not
  parseable as JSON, \<^verbatim>\<open>callOpenRouter\<close> returns the default mood state (dominant mood
  Neutral), the mode LISTENING and the raw content as the response. When the text of a
  Gemini response is not parseable as JSON, \<^verbatim>\<open>analyzeMultimodalMood\<close> throws its fixed
  error.
\<close>

theorem unparseable_response_handling:
  assumes "key \<noteq> None" and "key \<noteq> Some []"
    and "ok resp" and "json_result resp = Inr data"
    and "choices0_message_content data = Inr raw" and "JSON_parse raw = None"
    and "JSON_parse (JStr (case t of None \<Rightarrow> ''{}'' | Some x \<Rightarrow> if x = [] then ''{}'' else x)) = None"
  shows "callOpenRouter JSON_parse key (Inr resp) =
           Inr \<lparr>mood_state = default_mood_state, mode = SupportMode_value LISTENING,
                response = raw\<rparr>
       \<and> js_get default_mood_state ''dominant_mood'' = Inr (JStr ''Neutral'')
       \<and> analyzeMultimodalMood JSON_parse (Inr t) = Inl gemini_failure"
proof -
  from assms(6) have "callOpenRouter_parse_safely JSON_parse raw =
      \<lparr>mood_state = default_mood_state, mode = SupportMode_value LISTENING, response = raw\<rparr>"
    by (simp add: callOpenRouter_parse_safely_def callOpenRouter_parse_def)
  with assms(1-5) have a: "callOpenRouter JSON_parse key (Inr resp) =
           Inr \<lparr>mood_state = default_mood_state, mode = SupportMode_value LISTENING,
                response = raw\<rparr>"
    by (simp add: callOpenRouter_def)
  have b: "js_get default_mood_state ''dominant_mood'' = Inr (JStr ''Neutral'')"
    by (simp add: default_mood_state_def)
  from assms(7) have "analyzeMultimodalMood_try JSON_parse (Inr t) = Inl (SyntaxError ''Unexpected token'')"
    by (simp add: analyzeMultimodalMood_try_def)
  then have c: "analyzeMultimodalMood JSON_parse (Inr t) = Inl gemini_failure"
    by (simp add: analyzeMultimodalMood_def)
  from a b c show ?thesis by simp
qed

text \<open>
  Witness for C4: the same text, which is not JSON, as the content of a chat completion and
  as the text of a Gemini response.
\<close>

theorem unparseable_response_handling_witness:
  "ok (completion_with text_not_json) \<and>
   JSON_parse_sample (JStr text_not_json) = None \<and>
   callOpenRouter JSON_parse_sample (Some ''sk-test'') (Inr (completion_with text_not_json)) =
     Inr \<lparr>mood_state = default_mood_state, mode = ''LISTENING'', response = JStr text_not_json\<rparr> \<and>
   analyzeMultimodalMood JSON_parse_sample (Inr (Some text_not_json)) = Inl gemini_failure"
proof -
  have k: "Some ''sk-test'' \<noteq> None" "Some ''sk-test'' \<noteq> Some []" by simp_all
  have o: "ok (completion_with text_not_json)" by (simp add: completion_with_def)
  have j: "json_result (completion_with text_not_json) =
      Inr (JObj [(''choices'',
        JArr [JObj [(''message'',
                JObj [(''role'', JStr ''assistant''), (''content'', JStr text_not_json)])]] [])])"
    by (simp add: completion_with_def)
  have p: "JSON_parse_sample (JStr text_not_json) = None"
    by (rule JSON_parse_sample_values)
  have g: "JSON_parse_sample (JStr (case Some text_not_json of None \<Rightarrow> ''{}''
             | Some x \<Rightarrow> if x = [] then ''{}'' else x)) = None"
    by (simp add: sample_texts_differ JSON_parse_sample_values)
  from unparseable_response_handling [OF k o j completion_content p g] o p
  show ?thesis by simp
qed

text \<open>
  Counterexample to C4 as stated: on the Gemini path the adapter does not return for a
  response text that is not JSON; it throws.
\<close>

theorem analyzeMultimodalMood_unparseable_counterexample:
  "JSON_parse_sample (JStr text_not_json) = None \<and>
   analyzeMultimodalMood JSON_parse_sample (Inr (Some text_not_json)) = Inl gemini_failure"
  by (simp add: analyzeMultimodalMood_def analyzeMultimodalMood_try_def
        JSON_parse_sample_values sample_texts_differ)

section \<open>Mood log\<close>

text \<open>
  C2. For every mood log and every detected mood, the log after \<^verbatim>\<open>handleMoodDetected\<close> is
  the old log with the first entry dated today overwritten in place (same position, every
  other entry untouched) when the old log has an entry for today, and the old log with the
  new entry appended otherwise. A second detection on the same day leaves the length as
  the first detection left it.
\<close>

theorem handleMoodDetected_overwrites_or_appends:
  "(if \<exists>l \<in> set (moodLogs s). date l = today
    then \<exists>i < length (moodLogs s).
           date (moodLogs s ! i) = today \<and> (\<forall>j < i. date (moodLogs s ! j) \<noteq> today) \<and>
           moodLogs (fst (handleMoodDetected sb today m mode_v s)) =
             (moodLogs s)[i := newEntry_of today m]
    else moodLogs (fst (handleMoodDetected sb today m mode_v s)) =
           moodLogs s @ [newEntry_of today m])
   \<and> length (moodLogs (fst (handleMoodDetected sb2 today m2 mode_v2
                 (fst (handleMoodDetected sb today m mode_v s))))) =
     length (moodLogs (fst (handleMoodDetected sb today m mode_v s)))"
proof -
  let ?P = "\<lambda>l. date l = today"
  let ?prev = "moodLogs s"
  let ?e = "newEntry_of today m"
  let ?logs = "setMoodLogs_updater today ?e ?prev"
  have first: "moodLogs (fst (handleMoodDetected sb today m mode_v s)) = ?logs"
    by (rule moodLogs_handleMoodDetected)
  have merge: "if \<exists>l \<in> set ?prev. date l = today
      then \<exists>i < length ?prev. date (?prev ! i) = today \<and> (\<forall>j < i. date (?prev ! j) \<noteq> today) \<and>
             ?logs = ?prev[i := ?e]
      else ?logs = ?prev @ [?e]"
  proof (cases "0 \<le> findIndex ?P ?prev")
    case True
    then have ex: "\<exists>l \<in> set ?prev. date l = today"
      by (simp add: findIndex_nonneg_iff)
    let ?i = "nat (findIndex ?P ?prev)"
    from findIndex_found [OF True]
    have "?i < length ?prev" "date (?prev ! ?i) = today" "\<forall>j < ?i. date (?prev ! j) \<noteq> today"
      by auto
    moreover have "?logs = ?prev[?i := ?e]"
      using True by (simp add: setMoodLogs_updater_def Let_def)
    ultimately show ?thesis using ex by auto
  next
    case False
    then have "\<not> (\<exists>l \<in> set ?prev. date l = today)"
      by (simp add: findIndex_nonneg_iff)
    moreover have "?logs = ?prev @ [?e]"
      using False by (simp add: updater_not_found)
    ultimately show ?thesis by simp
  qed
  have "\<exists>l \<in> set ?logs. date l = today"
    by (rule updater_has_today) simp
  then have "0 \<le> findIndex ?P ?logs"
    by (simp add: findIndex_nonneg_iff)
  then have "length (setMoodLogs_updater today (newEntry_of today m2) ?logs) = length ?logs"
    by (rule updater_length_found)
  then have second: "length (moodLogs (fst (handleMoodDetected sb2 today m2 mode_v2
                 (fst (handleMoodDetected sb today m mode_v s))))) = length ?logs"
    by (simp add: moodLogs_handleMoodDetected)
  show ?thesis
    unfolding first using merge second [unfolded first] by simp
qed

text \<open>
  Witness for C2: a detection on a day that the log already holds replaces that day's
  entry, and a repeated detection keeps the length.
\<close>

theorem handleMoodDetected_overwrites_or_appends_witness:
  "moodLogs (fst (handleMoodDetected sb_ok ''2026-03-03'' mood_calm ''CALMING'' app_signed_in)) =
     [entry_mon, newEntry_of ''2026-03-03'' mood_calm]
   \<and> length (moodLogs (fst (handleMoodDetected sb_ok ''2026-03-03'' mood_low ''CALMING''
        (fst (handleMoodDetected sb_ok ''2026-03-03'' mood_calm ''CALMING'' app_signed_in))))) = 2"
proof -
  have ex: "\<exists>l \<in> set (moodLogs app_signed_in). date l = ''2026-03-03''"
    by (simp add: app_signed_in_def entry_mon_def entry_tue_def)
  from handleMoodDetected_overwrites_or_appends
         [of app_signed_in "''2026-03-03''" sb_ok mood_calm "''CALMING''" sb_ok mood_low "''CALMING''"]
  have shape: "\<exists>i < length (moodLogs app_signed_in).
           date (moodLogs app_signed_in ! i) = ''2026-03-03'' \<and>
           (\<forall>j < i. date (moodLogs app_signed_in ! j) \<noteq> ''2026-03-03'') \<and>
           moodLogs (fst (handleMoodDetected sb_ok ''2026-03-03'' mood_calm ''CALMING'' app_signed_in)) =
             (moodLogs app_signed_in)[i := newEntry_of ''2026-03-03'' mood_calm]"
    and len: "length (moodLogs (fst (handleMoodDetected sb_ok ''2026-03-03'' mood_low ''CALMING''
        (fst (handleMoodDetected sb_ok ''2026-03-03'' mood_calm ''CALMING'' app_signed_in))))) =
      length (moodLogs (fst (handleMoodDetected sb_ok ''2026-03-03'' mood_calm ''CALMING'' app_signed_in)))"
    using ex by auto
  from shape obtain i where a: "i < length (moodLogs app_signed_in)"
    and b: "date (moodLogs app_signed_in ! i) = ''2026-03-03''"
    and eq: "moodLogs (fst (handleMoodDetected sb_ok ''2026-03-03'' mood_calm ''CALMING'' app_signed_in)) =
             (moodLogs app_signed_in)[i := newEntry_of ''2026-03-03'' mood_calm]"
    by blast
  have "i = 1"
  proof (cases i)
    case 0
    with b show ?thesis by (simp add: app_signed_in_def entry_mon_def)
  next
    case (Suc k)
    with a show ?thesis by (simp add: app_signed_in_def)
  qed
  with eq have res: "moodLogs (fst (handleMoodDetected sb_ok ''2026-03-03'' mood_calm ''CALMING'' app_signed_in)) =
     [entry_mon, newEntry_of ''2026-03-03'' mood_calm]" by (simp add: app_signed_in_def)
  show ?thesis using res len by simp
qed

text \<open>
  C8. If the dates of the mood log are pairwise distinct, they are pairwise distinct after
  \<^verbatim>\<open>handleMoodDetected\<close>. The handler's backend calls are none for a guest, the look-up of
  the user when nobody is signed in, and otherwise that look-up and one upsert of the new
  entry's row for the signed-in user on the conflict key \<^verbatim>\<open>user_id,date\<close>. If the
  (user_id, date) keys of the backend table are pairwise distinct, they are pairwise
  distinct after these calls are applied, and an upsert that the backend accepts leaves the
  new row in the table.
\<close>

theorem handleMoodDetected_preserves_one_entry_per_day:
  assumes "distinct (map date (moodLogs s))" and "distinct (map row_key table)"
  shows "distinct (map date (moodLogs (fst (handleMoodDetected sb today m mode_v s))))
       \<and> backend_calls (snd (handleMoodDetected sb today m mode_v s)) =
           (if isGuest s then []
            else case auth_getUser sb of
                   None \<Rightarrow> [Auth_getUser]
                 | Some uid \<Rightarrow>
                     [Auth_getUser,
                      MoodLogs_upsert
                        \<lparr>row_user_id = uid, row_date = today, row_mood = dominant_mood m,
                         row_energy = energy_level m, row_score = score (newEntry_of today m)\<rparr>
                        ''user_id,date''])
       \<and> distinct (map row_key
           (apply_calls sb (backend_calls (snd (handleMoodDetected sb today m mode_v s))) table))
       \<and> (\<forall>uid. \<not> isGuest s \<and> auth_getUser sb = Some uid \<and>
                 mood_logs_upsert sb
                   \<lparr>row_user_id = uid, row_date = today, row_mood = dominant_mood m,
                    row_energy = energy_level m, row_score = score (newEntry_of today m)\<rparr> = None
             \<longrightarrow> \<lparr>row_user_id = uid, row_date = today, row_mood = dominant_mood m,
                  row_energy = energy_level m, row_score = score (newEntry_of today m)\<rparr>
                 \<in> set (apply_calls sb
                         (backend_calls (snd (handleMoodDetected sb today m mode_v s))) table))"
proof -
  have "distinct (map date (setMoodLogs_updater today (newEntry_of today m) (moodLogs s)))"
    using assms(1) by (rule updater_distinct_dates) simp
  then have local: "distinct (map date (moodLogs (fst (handleMoodDetected sb today m mode_v s))))"
    by (simp add: moodLogs_handleMoodDetected)
  have remote: "distinct (map row_key
           (apply_calls sb (backend_calls (snd (handleMoodDetected sb today m mode_v s))) table))"
    using assms(2) by (rule apply_calls_handleMoodDetected_distinct)
  have stored: "\<forall>uid. \<not> isGuest s \<and> auth_getUser sb = Some uid \<and>
                 mood_logs_upsert sb
                   \<lparr>row_user_id = uid, row_date = today, row_mood = dominant_mood m,
                    row_energy = energy_level m, row_score = score (newEntry_of today m)\<rparr> = None
             \<longrightarrow> \<lparr>row_user_id = uid, row_date = today, row_mood = dominant_mood m,
                  row_energy = energy_level m, row_score = score (newEntry_of today m)\<rparr>
                 \<in> set (apply_calls sb
                         (backend_calls (snd (handleMoodDetected sb today m mode_v s))) table)"
    unfolding backend_calls_handleMoodDetected
    by (simp add: apply_calls_def upsert_onConflict_stores)
  from local remote stored backend_calls_handleMoodDetected [of sb today m mode_v s]
  show ?thesis by blast
qed

text \<open>
  Witness for C8: a log with one entry per day and a table that holds the user's row for
  the day and another user's row for the same day; after a detection on that day the table
  holds the new row in place of the user's old one.
\<close>

theorem handleMoodDetected_preserves_one_entry_per_day_witness:
  "distinct (map date (moodLogs app_signed_in)) \<and> distinct (map row_key table_two) \<and>
   distinct (map date (moodLogs
     (fst (handleMoodDetected sb_ok ''2026-03-03'' mood_calm ''CALMING'' app_signed_in)))) \<and>
   distinct (map row_key (apply_calls sb_ok
     (backend_calls (snd (handleMoodDetected sb_ok ''2026-03-03'' mood_calm ''CALMING'' app_signed_in)))
     table_two)) \<and>
   apply_calls sb_ok
     (backend_calls (snd (handleMoodDetected sb_ok ''2026-03-03'' mood_calm ''CALMING'' app_signed_in)))
     table_two =
     [\<lparr>row_user_id = ''u2'', row_date = ''2026-03-03'', row_mood = ''Sad'',
       row_energy = ''low'', row_score = 30\<rparr>,
      \<lparr>row_user_id = ''u1'', row_date = ''2026-03-03'', row_mood = ''Happy'',
       row_energy = ''high'', row_score = 90\<rparr>]"
proof -
  have h1: "distinct (map date (moodLogs app_signed_in))"
    by (simp add: app_signed_in_def entry_mon_def entry_tue_def)
  have h2: "distinct (map row_key table_two)"
    by (simp add: table_two_def row_key_def)
  have calls: "backend_calls (snd (handleMoodDetected sb_ok ''2026-03-03'' mood_calm ''CALMING'' app_signed_in)) =
     [Auth_getUser,
      MoodLogs_upsert
        \<lparr>row_user_id = ''u1'', row_date = ''2026-03-03'', row_mood = ''Happy'',
         row_energy = ''high'', row_score = score (newEntry_of ''2026-03-03'' mood_calm)\<rparr>
        ''user_id,date'']"
    by (simp add: backend_calls_handleMoodDetected app_signed_in_def sb_ok_def mood_calm_def)
  have result: "apply_calls sb_ok
     (backend_calls (snd (handleMoodDetected sb_ok ''2026-03-03'' mood_calm ''CALMING'' app_signed_in)))
     table_two =
     [\<lparr>row_user_id = ''u2'', row_date = ''2026-03-03'', row_mood = ''Sad'',
       row_energy = ''low'', row_score = 30\<rparr>,
      \<lparr>row_user_id = ''u1'', row_date = ''2026-03-03'', row_mood = ''Happy'',
       row_energy = ''high'', row_score = 90\<rparr>]"
    unfolding calls
    by (simp add: apply_calls_def sb_ok_def table_two_def conflict_def column_def score_examples)
  from handleMoodDetected_preserves_one_entry_per_day [OF h1 h2] h1 h2 result
  show ?thesis by blast
qed

section \<open>Persistence\<close>

text \<open>
  C5, as amended. While the guest flag is set, \<^verbatim>\<open>handleMoodDetected\<close> has no effect
  besides its state update, so it sends no mood-entry upsert, and \<^verbatim>\<open>handleSend\<close> makes no
  call of the backend, so it sends no message insert.
\<close>

theorem guest_mode_gates_writes:
  assumes "isGuest a" and "localStorage_getItem env ''md_is_guest'' = Some ''true''"
  shows "snd (handleMoodDetected sb today m mode_v a) = [] \<and>
         backend_calls (fst (snd (handleSend env s))) = []"
  using assms by (simp add: handleMoodDetected_guest_effects handleSend_guest_no_backend)

text \<open>
  Witness for C5: a guest session, a detected mood and a sent message.
\<close>

theorem guest_mode_gates_writes_witness:
  "isGuest app_guest \<and> localStorage_getItem env_guest ''md_is_guest'' = Some ''true'' \<and>
   snd (handleMoodDetected sb_anonymous ''2026-03-03'' mood_calm ''CALMING'' app_guest) = [] \<and>
   backend_calls (fst (snd (handleSend env_guest chat_ready))) = []"
proof -
  have g1: "isGuest app_guest" by (simp add: app_guest_def)
  have g2: "localStorage_getItem env_guest ''md_is_guest'' = Some ''true''" by simp
  from guest_mode_gates_writes [OF g1 g2] g1 g2 show ?thesis by simp
qed

text \<open>
  Counterexample to C5 as stated: in a guest session without a signed-in user, the load of
  the conversation list that the chat window starts with reads the conversations table, and
  then starts a new chat, which asks the backend for the signed-in user before it falls back
  to a temporary conversation id.
\<close>

theorem guest_mode_conversation_read_counterexample:
  "localStorage_getItem env_guest ''md_is_guest'' = Some ''true'' \<and>
   auth_getUser (cloud env_guest) = None \<and>
   loadConversations env_guest [Inr []] None chat_mounting =
     Some (chat_mounting\<lparr>activeConvId := Some (''temp-'' @ toString_nat (now_newChat env_guest))\<rparr>,
           [Backend Conversations_select, Backend Auth_getUser]) \<and>
   is_persistence Conversations_select"
  by (simp add: getConversations_def createConversation_def sb_anonymous_def sb_ok_def
        chat_mounting_def)

text \<open>
  C9. A failing \<^verbatim>\<open>saveMessage\<close> is not ignored by \<^verbatim>\<open>handleSend\<close>. When the save of the
  user message fails, the handler's promise rejects with the backend's error, no provider
  is called and the typing flag stays on. When the save of the reply fails, the error goes
  to the transcript as an error message after the reply. (A failing \<^verbatim>\<open>saveMoodEntry\<close> is
  logged and ignored: \<open>handleMoodDetected_save_failure\<close>.)
\<close>

theorem handleSend_saveMessage_failure:
  "handleSend env_db_down chat_ready =
     (chat_ready\<lparr>messages := [earlier_msg, userMsg_of env_db_down ''I feel stuck''],
                 inputText := [], isTyping := True\<rparr>,
      [Backend Auth_getUser,
       Backend (Messages_insert
         \<lparr>row_conversation_id = ''c1'', row_msg_user_id = ''u1'', row_role = User,
          row_content = JStr ''I feel stuck'', row_timestamp = now_userMsg env_db_down,
          row_mood_state = JUndefined\<rparr>)],
      Some db_down)
   \<and> fst (handleSend env_reply_rejected chat_ready) =
       chat_ready\<lparr>messages := [earlier_msg, userMsg_of env_reply_rejected ''I feel stuck'',
                                assistantMsg_of env_reply_rejected reply_ok,
                                errorMsg_of env_reply_rejected db_down],
                   inputText := [], isTyping := False\<rparr>
   \<and> snd (snd (handleSend env_reply_rejected chat_ready)) = None"
proof -
  have p1: "persists env_db_down ''c1''" "persists env_reply_rejected ''c1''"
    by (simp_all add: persists_def startsWith_def)
  have first: "handleSend env_db_down chat_ready =
     (chat_ready\<lparr>messages := [earlier_msg, userMsg_of env_db_down ''I feel stuck''],
                 inputText := [], isTyping := True\<rparr>,
      [Backend Auth_getUser,
       Backend (Messages_insert
         \<lparr>row_conversation_id = ''c1'', row_msg_user_id = ''u1'', row_role = User,
          row_content = JStr ''I feel stuck'', row_timestamp = now_userMsg env_db_down,
          row_mood_state = JUndefined\<rparr>)],
      Some db_down)"
    using chat_ready_sending p1
    by (simp add: handleSend_def Let_def save_if_persisting_def saveMessage_def
          sb_down_def sb_ok_def userMsg_of_def chat_ready_def)
  have truthy: "truthy (response reply_ok)" by (simp add: reply_ok_def)
  have second: "handleSend env_reply_rejected chat_ready =
      (chat_ready\<lparr>messages := [earlier_msg, userMsg_of env_reply_rejected ''I feel stuck'',
                                assistantMsg_of env_reply_rejected reply_ok,
                                errorMsg_of env_reply_rejected db_down],
                   inputText := [], isTyping := False\<rparr>,
       fst (snd (handleSend env_reply_rejected chat_ready)), None)"
    using chat_ready_sending p1 truthy
    by (simp add: handleSend_def Let_def save_if_persisting_def saveMessage_def
          sb_reply_rejected_def sb_ok_def handleSend_try_def provider_attempts_def
          handleSend_catch_def chat_ready_def
          userMsg_of_def [of env_reply_rejected] assistantMsg_of_def [of env_reply_rejected])
  show ?thesis using first second by (metis fst_conv snd_conv)
qed

end
